theory Spec2Isabelle
  imports Complex_Main
begin

section \<open>Values and errors\<close>

text \<open>
  The two stages exchange JSON-compatible Python values, and a key that a dictionary may
  lack is an option type. An \<open>int\<close> is an unbounded integer. A \<open>float\<close> is an IEEE double
  and is represented by the rational number that is its value; the arithmetic on floats
  rounds its results to the nearest double (section \<open>Numbers\<close>). Only the quotients of the
  font size estimate are kept exact.
\<close>

datatype pyval =
    VNone
  | VBool bool
  | VInt int
  | VFloat rat
  | VStr string
  | VList "pyval list"
  | VDict "(string \<times> pyval) list"

text \<open>
  The three hard errors of the specification are all raised as \<open>ValueError\<close> in the
  source and are told apart by their message; the other constructors are the Python
  exceptions the modelled code can raise on well-typed input.
\<close>

datatype error =
    InvalidSpec
  | InvalidLeaf
  | UnsupportedNodeType
  | ZeroDivisionError
  | TypeError
  | ValueError
  | StatisticsError

section \<open>Numbers\<close>

text \<open>\<open>round(x)\<close> on a float: to the nearest integer, a tie going to the even one.\<close>

definition py_round :: "rat \<Rightarrow> int" where
  "py_round x =
     (let f = \<lfloor>x\<rfloor>; d = x - of_int f in
      if d < 1 / 2 then f
      else if 1 / 2 < d then f + 1
      else if even f then f else f + 1)"

text \<open>
  The double nearest to a rational number, a tie going to the even significand: the
  number is scaled by a power of two so that its significand has 53 bits (fewer for the
  subnormal numbers, which are multiples of 2 to the power -1074), rounded to an integer
  and scaled back. The overflow of large numbers to infinity is not modelled.
\<close>

function bit_length :: "int \<Rightarrow> int" where
  "bit_length n = (if n \<le> 0 then 0 else 1 + bit_length (n div 2))"
  by pat_completeness auto
termination
  by (relation "measure nat") auto

declare bit_length.simps [simp del]

definition pow2 :: "int \<Rightarrow> rat" where
  "pow2 e = (if 0 \<le> e then 2 ^ nat e else 1 / 2 ^ nat (- e))"

text \<open>The exponent of \<open>x \<noteq> 0\<close>: the \<open>e\<close> with \<open>pow2 e \<le> \<bar>x\<bar> < pow2 (e + 1)\<close>.\<close>

definition exponent :: "rat \<Rightarrow> int" where
  "exponent x =
     (case quotient_of \<bar>x\<bar> of (p, q) \<Rightarrow>
        let d = bit_length p - bit_length q
        in if pow2 d \<le> \<bar>x\<bar> then d else d - 1)"

definition fl :: "rat \<Rightarrow> rat" where
  "fl x =
     (if x = 0 then 0
      else let e = max (exponent x - 52) (- 1074)
           in of_int (py_round (x / pow2 e)) * pow2 e)"

text \<open>
  The four operations on floats. Each reads its operands as doubles, so that a decimal
  number such as \<open>0.08\<close> stands for the double that Python reads it as, and rounds the
  exact result. Division is used where the divisor is not zero.
\<close>

definition fadd :: "rat \<Rightarrow> rat \<Rightarrow> rat" where
  "fadd x y = fl (fl x + fl y)"

definition fsub :: "rat \<Rightarrow> rat \<Rightarrow> rat" where
  "fsub x y = fl (fl x - fl y)"

definition fmul :: "rat \<Rightarrow> rat \<Rightarrow> rat" where
  "fmul x y = fl (fl x * fl y)"

definition fdiv :: "rat \<Rightarrow> rat \<Rightarrow> rat" where
  "fdiv x y = fl (fl x / fl y)"

text \<open>
  \<open>round(x, 3)\<close>: the value of the double \<open>x\<close> is rounded at the third decimal, a tie
  going to the even digit, and the result is the double nearest to that decimal number.
\<close>

definition py_round3 :: "rat \<Rightarrow> rat" where
  "py_round3 x = fl (of_int (py_round (fl x * 1000)) / 1000)"

text \<open>\<open>statistics.median\<close>: raises \<open>StatisticsError\<close> on no data.\<close>

definition median :: "rat list \<Rightarrow> error + rat" where
  "median data =
     (let s = sort data; n = length s in
      if n = 0 then Inl StatisticsError
      else if n mod 2 = 1 then Inr (s ! (n div 2))
      else Inr (fdiv (fadd (s ! (n div 2 - 1)) (s ! (n div 2))) 2))"

text \<open>
  \<open>sum\<close> of a list of floats, as of Python 3.12: the first item is added to the start
  value \<open>0\<close>, the others are added with Neumaier's compensation.
\<close>

fun float_sum_loop :: "rat \<Rightarrow> rat \<Rightarrow> rat list \<Rightarrow> rat" where
  "float_sum_loop f_result c [] = (if fl c \<noteq> 0 then fadd f_result c else f_result)"
| "float_sum_loop f_result c (x # xs) =
     (let t = fadd f_result x
      in float_sum_loop t
           (fadd c (if \<bar>fl x\<bar> \<le> \<bar>fl f_result\<bar> then fadd (fsub f_result t) x
                    else fadd (fsub x t) f_result))
           xs)"

definition py_sum :: "rat list \<Rightarrow> rat" where
  "py_sum xs = (case xs of [] \<Rightarrow> 0 | x # rest \<Rightarrow> float_sum_loop (fadd 0 x) 0 rest)"

section \<open>Geometry primitives\<close>

record Rect =
  left :: rat
  top :: rat
  right :: rat
  bottom :: rat

definition width :: "Rect \<Rightarrow> rat" where
  "width r = max 0 (fsub (right r) (left r))"

definition height :: "Rect \<Rightarrow> rat" where
  "height r = max 0 (fsub (bottom r) (top r))"

definition center_x :: "Rect \<Rightarrow> rat" where
  "center_x r = fadd (left r) (fdiv (width r) 2)"

definition center_y :: "Rect \<Rightarrow> rat" where
  "center_y r = fadd (top r) (fdiv (height r) 2)"

definition rect_from_bounds :: "rat \<times> rat \<times> rat \<times> rat \<Rightarrow> Rect" where
  "rect_from_bounds bounds =
     (case bounds of (l, t, r, b) \<Rightarrow> \<lparr>left = l, top = t, right = r, bottom = b\<rparr>)"

section \<open>Python built-ins used by the inference engine\<close>

text \<open>\<open>str.lower\<close> on ASCII text, and the substring test \<open>needle in haystack\<close>.\<close>

definition lower_char :: "char \<Rightarrow> char" where
  "lower_char c =
     (let n = (of_char c :: nat) in if 65 \<le> n \<and> n \<le> 90 then char_of (n + 32) else c)"

definition lower :: "string \<Rightarrow> string" where
  "lower s = map lower_char s"

fun starts_with :: "string \<Rightarrow> string \<Rightarrow> bool" where
  "starts_with s [] = True"
| "starts_with [] (p # ps) = False"
| "starts_with (c # cs) (p # ps) = (c = p \<and> starts_with cs ps)"

fun contains :: "string \<Rightarrow> string \<Rightarrow> bool" where
  "contains [] needle = (needle = [])"
| "contains (c # cs) needle = (starts_with (c # cs) needle \<or> contains cs needle)"

section \<open>The layout tree\<close>

text \<open>
  A layout node is a dictionary with the keys \<open>bounds\<close>, \<open>type\<close>, \<open>direction\<close>,
  \<open>text\<close>, \<open>content\<close>, \<open>num_line\<close> and \<open>subNodes\<close>; every one of them may be missing.
\<close>

record layout_fields =
  l_bounds :: "(rat \<times> rat \<times> rat \<times> rat) option"
  l_type :: "string option"
  l_direction :: "string option"
  l_text :: "string option"
  l_content :: "string option"
  l_num_line :: "int option"

datatype layout_node = LayoutNode layout_fields "layout_node list option"

fun node_fields :: "layout_node \<Rightarrow> layout_fields" where
  "node_fields (LayoutNode f kids) = f"

fun node_children :: "layout_node \<Rightarrow> layout_node list" where
  "node_children (LayoutNode f kids) = (case kids of None \<Rightarrow> [] | Some cs \<Rightarrow> cs)"

definition node_bounds :: "layout_node \<Rightarrow> (rat \<times> rat \<times> rat \<times> rat) option" where
  "node_bounds node = l_bounds (node_fields node)"

section \<open>Font size estimation\<close>

definition scale :: "rat \<times> rat \<Rightarrow> rat \<times> rat \<Rightarrow> rat" where
  "scale physical_size virtual_size =
     (case physical_size of (physical_width, physical_height) \<Rightarrow>
      case virtual_size of (virtual_width, virtual_height) \<Rightarrow>
        if 0 < virtual_width then physical_width / virtual_width
        else if 0 < virtual_height then physical_height / virtual_height
        else 1)"

definition estimate_font_size ::
  "Rect \<Rightarrow> rat \<times> rat \<Rightarrow> rat \<times> rat \<Rightarrow> int \<Rightarrow> rat \<Rightarrow> error + int" where
  "estimate_font_size bounds physical_size virtual_size num_lines line_height_ratio =
     (if scale physical_size virtual_size = 0 then Inl ZeroDivisionError
      else
        let virtual_text_height = height bounds / scale physical_size virtual_size;
            per_line_height = virtual_text_height / of_int (max 1 num_lines)
        in if line_height_ratio = 0 then Inl ZeroDivisionError
           else Inr (max 10 (py_round (per_line_height / line_height_ratio))))"

section \<open>Gap and alignment inference\<close>

definition infer_gap :: "layout_node list \<Rightarrow> string \<Rightarrow> error + int" where
  "infer_gap children direction =
     (if length children < 2 then Inr 0
      else
        let axis = (if direction = ''row'' then ''x'' else ''y'');
            rects = map rect_from_bounds (List.map_filter node_bounds children)
        in if length rects < 2 then Inr 0
           else
             let sorted_rects = sort_key (\<lambda>rect. if axis = ''x'' then left rect else top rect) rects;
                 gaps = filter (\<lambda>gap. 0 < gap)
                          (map (\<lambda>(prev, curr).
                                  if axis = ''x'' then fsub (left curr) (right prev)
                                  else fsub (top curr) (bottom prev))
                               (zip sorted_rects (tl sorted_rects)))
             in if gaps = [] then Inr 0
                else (case median gaps of Inl e \<Rightarrow> Inl e | Inr m \<Rightarrow> Inr (py_round m)))"

definition align_main :: "Rect \<Rightarrow> Rect list \<Rightarrow> string \<Rightarrow> string option" where
  "align_main container children direction =
     (if children = [] then None
      else
          let axis_start = (if direction = ''row'' then left container else top container);
              axis_end = (if direction = ''row'' then right container else bottom container);
              axis_size = (if direction = ''row'' then width container else height container);
              axis_center = (if direction = ''row'' then center_x container else center_y container);
              child_start = Min (set (map (\<lambda>child. if direction = ''row'' then left child else top child)
                                          children));
              child_end = Max (set (map (\<lambda>child. if direction = ''row'' then right child else bottom child)
                                        children));
              child_center = fdiv (fadd child_start child_end) 2;
              tolerance = max 8 (fmul axis_size (8 / 100))
          in if 1 < length children \<and> \<bar>fsub child_start axis_start\<bar> \<le> tolerance
                \<and> \<bar>fsub axis_end child_end\<bar> \<le> tolerance then Some ''between''
             else if \<bar>fsub child_center axis_center\<bar> \<le> tolerance then Some ''center''
             else if \<bar>fsub child_start axis_start\<bar> \<le> tolerance then Some ''start''
             else if \<bar>fsub axis_end child_end\<bar> \<le> tolerance then Some ''end''
             else Some ''start'')"

definition align_cross :: "Rect \<Rightarrow> Rect list \<Rightarrow> string \<Rightarrow> string option" where
  "align_cross container children direction =
     (if children = [] then None
      else
          let axis_start = (if direction = ''row'' then top container else left container);
              axis_end = (if direction = ''row'' then bottom container else right container);
              axis_size = (if direction = ''row'' then height container else width container);
              axis_center = (if direction = ''row'' then center_y container else center_x container);
              centers = map (if direction = ''row'' then center_y else center_x) children;
              average_center = fdiv (py_sum centers) (of_nat (length centers));
              tolerance = max 8 (fmul axis_size (8 / 100));
              min_edge = Min (set (map (\<lambda>child. if direction = ''row'' then top child else left child)
                                       children));
              max_edge = Max (set (map (\<lambda>child. if direction = ''row'' then bottom child else right child)
                                       children))
          in if \<bar>fsub average_center axis_center\<bar> \<le> tolerance then Some ''center''
             else if \<bar>fsub min_edge axis_start\<bar> \<le> tolerance then Some ''start''
             else if \<bar>fsub axis_end max_edge\<bar> \<le> tolerance then Some ''end''
             else Some ''start'')"

definition map_direction :: "string option \<Rightarrow> string" where
  "map_direction v =
     (case v of
        None \<Rightarrow> ''col''
      | Some s \<Rightarrow>
          if s = [] then ''col''
          else if contains (lower s) ''row'' then ''row''
          else if contains (lower s) ''col'' then ''col''
          else if contains (lower s) ''stack'' then ''col''
          else ''col'')"

definition leaf_component :: "layout_node \<Rightarrow> string option" where
  "leaf_component node =
     (let node_type = lower (case l_type (node_fields node) of None \<Rightarrow> [] | Some t \<Rightarrow> t) in
      if node_type = ''text'' \<or> node_type = ''paragraph'' then Some ''Text''
      else if node_type = ''icon'' then Some ''Icon''
      else if node_type = ''image'' then Some ''Image''
      else None)"

definition infer_flex :: "Rect \<Rightarrow> Rect option \<Rightarrow> string option \<Rightarrow> rat option" where
  "infer_flex rect parent_rect parent_direction =
     (case parent_rect of
        None \<Rightarrow> None
      | Some pr \<Rightarrow>
          (case parent_direction of
             None \<Rightarrow> None
           | Some pd \<Rightarrow>
               if pd = [] then None
               else
                 let parent_size = (if pd = ''row'' then width pr else height pr) in
                 if parent_size \<le> 0 then None
                 else
                   let child_size = (if pd = ''row'' then width rect else height rect);
                       ratio = max 0 (fdiv child_size parent_size)
                   in Some (py_round3 ratio)))"

section \<open>The Widget DSL\<close>

text \<open>
  A DSL node is a dictionary. Its scalar keys hold any JSON value, \<open>props\<close> is a
  dictionary and \<open>children\<close> a list of nodes; \<open>None\<close> is a missing key and
  \<open>Some VNone\<close> a key that holds JSON null. \<open>n_other_keys\<close> lists the keys the compiler
  never reads: they only count for the truth value of the dictionary.
\<close>

record dsl_fields =
  n_type :: "pyval option"
  n_direction :: "pyval option"
  n_gap :: "pyval option"
  n_padding :: "pyval option"
  n_alignMain :: "pyval option"
  n_alignCross :: "pyval option"
  n_flex :: "pyval option"
  n_width :: "pyval option"
  n_height :: "pyval option"
  n_backgroundColor :: "pyval option"
  n_borderRadius :: "pyval option"
  n_component :: "pyval option"
  n_props :: "(string \<rightharpoonup> pyval) option"
  n_content :: "pyval option"
  n_other_keys :: "string list"

datatype dsl_node = DslNode dsl_fields "dsl_node list option"

definition empty_fields :: dsl_fields where
  "empty_fields =
     \<lparr>n_type = None, n_direction = None, n_gap = None, n_padding = None,
      n_alignMain = None, n_alignCross = None, n_flex = None, n_width = None,
      n_height = None, n_backgroundColor = None, n_borderRadius = None,
      n_component = None, n_props = None, n_content = None, n_other_keys = []\<rparr>"

record widget =
  w_root :: "dsl_node option"
  w_backgroundColor :: "pyval option"
  w_borderRadius :: "pyval option"
  w_padding :: "pyval option"
  w_width :: "pyval option"
  w_height :: "pyval option"
  w_aspectRatio :: "pyval option"

record widget_dsl =
  ws_widget :: "widget option"

definition convert_leaf ::
  "layout_node \<Rightarrow> Rect \<Rightarrow> rat \<times> rat \<Rightarrow> rat \<times> rat \<Rightarrow> error + dsl_node" where
  "convert_leaf node rect physical_size virtual_size =
     (case leaf_component node of
        None \<Rightarrow> Inl UnsupportedNodeType
      | Some component \<Rightarrow>
          let dsl = empty_fields\<lparr>n_type := Some (VStr ''leaf''), n_component := Some (VStr component)\<rparr> in
          if component = ''Text'' then
            let num_lines = (case l_num_line (node_fields node) of
                               None \<Rightarrow> 1 | Some n \<Rightarrow> if n = 0 then 1 else n);
                content = VStr (case l_text (node_fields node) of None \<Rightarrow> [] | Some t \<Rightarrow> t)
            in case estimate_font_size rect physical_size virtual_size num_lines (6 / 5) of
                 Inl e \<Rightarrow> Inl e
               | Inr font_size \<Rightarrow>
                   Inr (DslNode
                         (dsl\<lparr>n_content := Some content,
                              n_props := Some (if 1 < num_lines
                                 then [''fontSize'' \<mapsto> VInt font_size, ''maxLines'' \<mapsto> VInt num_lines]
                                 else [''fontSize'' \<mapsto> VInt font_size])\<rparr>)
                         None)
          else if component = ''Icon'' then
            Inr (DslNode
                  (dsl\<lparr>n_props := Some
                     [''name'' \<mapsto> VStr (case l_content (node_fields node) of None \<Rightarrow> [] | Some c \<Rightarrow> c),
                      ''size'' \<mapsto> VInt (max 12 (py_round (height rect)))]\<rparr>)
                  None)
          else if component = ''Image'' then
            Inr (DslNode
                  (dsl\<lparr>n_props := Some [''src'' \<mapsto> VStr []],
                       n_width := Some (VInt (py_round (width rect))),
                       n_height := Some (VInt (py_round (height rect)))\<rparr>)
                  None)
          else Inr (DslNode dsl None))"

function convert_node ::
  "layout_node \<Rightarrow> rat \<times> rat \<Rightarrow> rat \<times> rat \<Rightarrow> Rect option \<Rightarrow> string option \<Rightarrow> error + dsl_node"
and convert_container ::
  "layout_node \<Rightarrow> Rect \<Rightarrow> rat \<times> rat \<Rightarrow> rat \<times> rat \<Rightarrow> Rect option \<Rightarrow> string option \<Rightarrow> error + dsl_node"
and convert_children ::
  "layout_node list \<Rightarrow> rat \<times> rat \<Rightarrow> rat \<times> rat \<Rightarrow> Rect \<Rightarrow> string \<Rightarrow> error + dsl_node list"
where
  "convert_node (LayoutNode f kids) physical_size virtual_size parent_rect parent_direction =
     (let node = LayoutNode f kids;
          rect = rect_from_bounds (case l_bounds f of None \<Rightarrow> (0, 0, 0, 0) | Some b \<Rightarrow> b);
          children = (case kids of None \<Rightarrow> [] | Some cs \<Rightarrow> cs)
      in if leaf_component node \<noteq> None \<and> children = []
         then convert_leaf node rect physical_size virtual_size
         else convert_container node rect physical_size virtual_size parent_rect parent_direction)"
| "convert_container (LayoutNode f kids) rect physical_size virtual_size parent_rect parent_direction =
     (let node = LayoutNode f kids;
          direction = map_direction (l_direction f)
      in case convert_children (case kids of None \<Rightarrow> [] | Some cs \<Rightarrow> cs)
                physical_size virtual_size rect direction of
           Inl e \<Rightarrow> Inl e
         | Inr children \<Rightarrow>
             let child_rects = map rect_from_bounds (List.map_filter node_bounds (node_children node)) in
             (case infer_gap (node_children node) direction of
                Inl e \<Rightarrow> Inl e
              | Inr gap \<Rightarrow>
                  Inr (DslNode
                        (empty_fields
                           \<lparr>n_type := Some (VStr ''container''),
                            n_direction := Some (VStr direction),
                            n_gap := Some (VInt gap),
                            n_alignMain := map_option VStr (align_main rect child_rects direction),
                            n_alignCross := map_option VStr (align_cross rect child_rects direction),
                            n_flex := map_option VFloat (infer_flex rect parent_rect parent_direction)\<rparr>)
                        (Some children))))"
| "convert_children [] physical_size virtual_size rect direction = Inr []"
| "convert_children (child # rest) physical_size virtual_size rect direction =
     (case convert_node child physical_size virtual_size (Some rect) (Some direction) of
        Inl e \<Rightarrow> Inl e
      | Inr d \<Rightarrow>
          (case convert_children rest physical_size virtual_size rect direction of
             Inl e \<Rightarrow> Inl e
           | Inr ds \<Rightarrow> Inr (d # ds)))"
  by pat_completeness auto
termination
  by (relation "measure (\<lambda>x. case x of
          Inl (n, a) \<Rightarrow> 2 * size n + 1
        | Inr (Inl (n, a)) \<Rightarrow> 2 * size n
        | Inr (Inr (cs, a)) \<Rightarrow> 2 * size_list size cs + 1)")
     (auto split: option.splits)

definition layout_json_to_widget_dsl ::
  "layout_node \<Rightarrow> rat \<times> rat \<Rightarrow> rat \<times> rat \<Rightarrow> error + widget_dsl" where
  "layout_json_to_widget_dsl layout_json physical_size virtual_size =
     (let root_rect = rect_from_bounds
            (case node_bounds layout_json of None \<Rightarrow> (0, 0, 0, 0) | Some b \<Rightarrow> b) in
      case convert_node layout_json physical_size virtual_size None None of
        Inl e \<Rightarrow> Inl e
      | Inr root_node \<Rightarrow>
          Inr \<lparr>ws_widget = Some
                 \<lparr>w_root = Some root_node, w_backgroundColor = None, w_borderRadius = None,
                  w_padding = Some (VInt 0), w_width = None, w_height = None,
                  w_aspectRatio = Some (VList [VInt (py_round (width root_rect)),
                                               VInt (py_round (height root_rect))])\<rparr>\<rparr>)"

text \<open>Reading a DSL node.\<close>

fun dsl_fields_of :: "dsl_node \<Rightarrow> dsl_fields" where
  "dsl_fields_of (DslNode f kids) = f"

fun dsl_children :: "dsl_node \<Rightarrow> dsl_node list" where
  "dsl_children (DslNode f kids) = (case kids of None \<Rightarrow> [] | Some cs \<Rightarrow> cs)"

section \<open>Python built-ins used by the compiler\<close>

text \<open>
  What the interpreter and its libraries supply is a parameter of the compiler: the text
  of a float, of a list and of a dictionary, \<open>json.dumps\<close>, and the clock and the random
  token \<open>unique_id\<close> reads at its \<open>k\<close>-th call.
\<close>

record py_runtime =
  float_repr :: "rat \<Rightarrow> string"
  container_repr :: "pyval \<Rightarrow> string"
  json_dumps :: "pyval \<Rightarrow> string"
  clock_ms :: "nat \<Rightarrow> int"
  token_hex :: "nat \<Rightarrow> string"

definition digit_char :: "nat \<Rightarrow> char" where
  "digit_char n = char_of (48 + n)"

function str_nat :: "nat \<Rightarrow> string" where
  "str_nat n = (if n < 10 then [digit_char n] else str_nat (n div 10) @ [digit_char (n mod 10)])"
  by pat_completeness auto
termination
  by (relation "measure (\<lambda>n. n)") auto

definition str_int :: "int \<Rightarrow> string" where
  "str_int i = (if i < 0 then ''-'' @ str_nat (nat (- i)) else str_nat (nat i))"

text \<open>\<open>str(v)\<close>, which is also what an f-string writes for \<open>{v}\<close>.\<close>

definition py_str :: "py_runtime \<Rightarrow> pyval \<Rightarrow> string" where
  "py_str rt v =
     (case v of
        VNone \<Rightarrow> ''None''
      | VBool b \<Rightarrow> (if b then ''True'' else ''False'')
      | VInt i \<Rightarrow> str_int i
      | VFloat r \<Rightarrow> float_repr rt r
      | VStr s \<Rightarrow> s
      | VList xs \<Rightarrow> container_repr rt v
      | VDict kvs \<Rightarrow> container_repr rt v)"

text \<open>The truth value of a value, and \<open>a or b\<close>.\<close>

definition truthy :: "pyval \<Rightarrow> bool" where
  "truthy v =
     (case v of
        VNone \<Rightarrow> False
      | VBool b \<Rightarrow> b
      | VInt i \<Rightarrow> i \<noteq> 0
      | VFloat r \<Rightarrow> r \<noteq> 0
      | VStr s \<Rightarrow> s \<noteq> []
      | VList xs \<Rightarrow> xs \<noteq> []
      | VDict kvs \<Rightarrow> kvs \<noteq> [])"

definition py_or :: "pyval \<Rightarrow> pyval \<Rightarrow> pyval" where
  "py_or a b = (if truthy a then a else b)"

text \<open>Numbers: \<open>bool\<close> is a subclass of \<open>int\<close>.\<close>

definition as_int :: "pyval \<Rightarrow> int option" where
  "as_int v = (case v of VBool b \<Rightarrow> Some (if b then 1 else 0) | VInt i \<Rightarrow> Some i | _ \<Rightarrow> None)"

definition as_num :: "pyval \<Rightarrow> rat option" where
  "as_num v =
     (case v of
        VBool b \<Rightarrow> Some (if b then 1 else 0)
      | VInt i \<Rightarrow> Some (of_int i)
      | VFloat r \<Rightarrow> Some r
      | _ \<Rightarrow> None)"

text \<open>
  \<open>a * b\<close>: a product of numbers (an \<open>int\<close> when both are), the repetition of a string or
  a list by an \<open>int\<close>, and \<open>TypeError\<close> otherwise.
\<close>

definition py_mul :: "pyval \<Rightarrow> pyval \<Rightarrow> error + pyval" where
  "py_mul a b =
     (case (as_int a, as_int b) of
        (Some i, Some j) \<Rightarrow> Inr (VInt (i * j))
      | _ \<Rightarrow>
        (case (as_num a, as_num b) of
           (Some x, Some y) \<Rightarrow> Inr (VFloat (fmul x y))
         | _ \<Rightarrow>
           (case (a, as_int b) of
              (VStr s, Some j) \<Rightarrow> Inr (VStr (concat (replicate (nat j) s)))
            | (VList xs, Some j) \<Rightarrow> Inr (VList (concat (replicate (nat j) xs)))
            | _ \<Rightarrow>
              (case (as_int a, b) of
                 (Some i, VStr s) \<Rightarrow> Inr (VStr (concat (replicate (nat i) s)))
               | (Some i, VList xs) \<Rightarrow> Inr (VList (concat (replicate (nat i) xs)))
               | _ \<Rightarrow> Inl TypeError))))"

definition py_sub :: "pyval \<Rightarrow> pyval \<Rightarrow> error + pyval" where
  "py_sub a b =
     (case (as_int a, as_int b) of
        (Some i, Some j) \<Rightarrow> Inr (VInt (i - j))
      | _ \<Rightarrow>
        (case (as_num a, as_num b) of
           (Some x, Some y) \<Rightarrow> Inr (VFloat (fsub x y))
         | _ \<Rightarrow> Inl TypeError))"

text \<open>\<open>a / b\<close>: true division, always a float; the quotient of two \<open>int\<close>s is the
  double nearest to the exact quotient.\<close>

definition py_truediv :: "pyval \<Rightarrow> pyval \<Rightarrow> error + pyval" where
  "py_truediv a b =
     (case (as_int a, as_int b) of
        (Some i, Some j) \<Rightarrow>
          if j = 0 then Inl ZeroDivisionError else Inr (VFloat (fl (of_int i / of_int j)))
      | _ \<Rightarrow>
        (case (as_num a, as_num b) of
           (Some x, Some y) \<Rightarrow> if fl y = 0 then Inl ZeroDivisionError else Inr (VFloat (fdiv x y))
         | _ \<Rightarrow> Inl TypeError))"

text \<open>
  \<open>max(a, k)\<close> and \<open>min(a, k)\<close> for an \<open>int\<close> literal \<open>k\<close>: the first argument is kept
  unless the second is strictly greater (smaller); a value that is no number cannot be
  compared with an \<open>int\<close>.
\<close>

definition py_max_int :: "pyval \<Rightarrow> int \<Rightarrow> error + pyval" where
  "py_max_int a k =
     (case as_num a of
        None \<Rightarrow> Inl TypeError
      | Some x \<Rightarrow> Inr (if x < of_int k then VInt k else a))"

definition py_min_int :: "pyval \<Rightarrow> int \<Rightarrow> error + pyval" where
  "py_min_int a k =
     (case as_num a of
        None \<Rightarrow> Inl TypeError
      | Some x \<Rightarrow> Inr (if of_int k < x then VInt k else a))"

text \<open>\<open>math.pi\<close>: the double nearest to \<open>\<pi>\<close>, as the rational it is.\<close>

definition math_pi :: rat where
  "math_pi = 884279719003555 / 281474976710656"

text \<open>\<open>sep.join(parts)\<close>, \<open>s.split(":", 1)\<close> and \<open>s.replace(c, "")\<close>.\<close>

fun join :: "string \<Rightarrow> string list \<Rightarrow> string" where
  "join sep [] = []"
| "join sep [x] = x"
| "join sep (x # y # ys) = x @ sep @ join sep (y # ys)"

definition split_colon :: "string \<Rightarrow> (string \<times> string) option" where
  "split_colon s =
     (if CHR '':'' \<in> set s
      then Some (takeWhile (\<lambda>c. c \<noteq> CHR '':'') s, tl (dropWhile (\<lambda>c. c \<noteq> CHR '':'') s))
      else None)"

definition remove_char :: "char \<Rightarrow> string \<Rightarrow> string" where
  "remove_char c s = filter (\<lambda>x. x \<noteq> c) s"

text \<open>\<open>d.get(key, default)\<close> on the \<open>props\<close> dictionary.\<close>

definition pget :: "(string \<rightharpoonup> pyval) \<Rightarrow> string \<Rightarrow> pyval \<Rightarrow> pyval" where
  "pget props k d = (case props k of None \<Rightarrow> d | Some v \<Rightarrow> v)"

text \<open>\<open>node.get(key, default)\<close> on a key of a node.\<close>

definition nget :: "pyval option \<Rightarrow> pyval \<Rightarrow> pyval" where
  "nget field d = (case field of None \<Rightarrow> d | Some v \<Rightarrow> v)"

section \<open>The markup compiler\<close>

text \<open>
  One invocation owns three ordered collections and two counters. A behaviour snippet is
  a fixed JavaScript template; it is recorded by its template and the texts interpolated
  into it, in the order the renderers appended them.
\<close>

datatype script =
    ButtonScript string
  | ProgressRingScript string string string
  | SparklineScript string string string string string
  | ChartScript string string

record cstate =
  c_lines :: "string list"
  c_scripts :: "script list"
  c_styles :: "string list"
  c_chart :: int
  c_sparkline :: int
  c_uid_calls :: nat

definition init_state :: cstate where
  "init_state =
     \<lparr>c_lines = [], c_scripts = [], c_styles = [], c_chart = 0, c_sparkline = 0, c_uid_calls = 0\<rparr>"

definition write_line :: "string \<Rightarrow> cstate \<Rightarrow> cstate" where
  "write_line line st = st\<lparr>c_lines := c_lines st @ [line]\<rparr>"

definition write_script :: "script \<Rightarrow> cstate \<Rightarrow> cstate" where
  "write_script s st = st\<lparr>c_scripts := c_scripts st @ [s]\<rparr>"

definition write_style :: "string \<Rightarrow> cstate \<Rightarrow> cstate" where
  "write_style s st = st\<lparr>c_styles := c_styles st @ [s]\<rparr>"

definition format_css_value :: "py_runtime \<Rightarrow> pyval \<Rightarrow> string" where
  "format_css_value rt v =
     (case v of
        VStr s \<Rightarrow> s
      | VBool b \<Rightarrow> py_str rt v @ ''px''
      | VInt i \<Rightarrow> py_str rt v @ ''px''
      | VFloat r \<Rightarrow> py_str rt v @ ''px''
      | _ \<Rightarrow> py_str rt v)"

fun format_entries :: "string list \<Rightarrow> error + string list" where
  "format_entries [] = Inr []"
| "format_entries (style # rest) =
     (case split_colon style of
        None \<Rightarrow> Inl ValueError
      | Some (property_name, v) \<Rightarrow>
          (case format_entries rest of
             Inl e \<Rightarrow> Inl e
           | Inr formatted \<Rightarrow>
               Inr ((property_name @ '': '' @ remove_char (CHR 0x22) (remove_char (CHR 0x27) v))
                    # formatted)))"

definition format_style_object :: "string list \<Rightarrow> error + string" where
  "format_style_object style_entries =
     (case format_entries style_entries of
        Inl e \<Rightarrow> Inl e
      | Inr formatted \<Rightarrow> Inr (join ''; '' formatted))"

definition unique_id :: "py_runtime \<Rightarrow> string \<Rightarrow> cstate \<Rightarrow> string \<times> cstate" where
  "unique_id rt prefix st =
     (prefix @ ''-'' @ str_int (clock_ms rt (c_uid_calls st)) @ ''-'' @ token_hex rt (c_uid_calls st),
      st\<lparr>c_uid_calls := c_uid_calls st + 1\<rparr>)"

definition indent_of :: "nat \<Rightarrow> string" where
  "indent_of depth = concat (replicate depth ''  '')"

text \<open>The three optional entries that the renderers append after their own.\<close>

definition size_styles :: "py_runtime \<Rightarrow> pyval \<Rightarrow> pyval \<Rightarrow> pyval \<Rightarrow> string list" where
  "size_styles rt flex width' height' =
     (if flex \<noteq> VNone then [''flex: '' @ py_str rt flex] else [])
     @ (if width' \<noteq> VNone then [''width: '' @ format_css_value rt width'] else [])
     @ (if height' \<noteq> VNone then [''height: '' @ format_css_value rt height'] else [])"

definition icon_map :: "(string \<times> string) list" where
  "icon_map =
     [(''sf:paperplane.fill'', ''fas fa-paper-plane''),
      (''sf:sun.max.fill'', ''fas fa-sun''),
      (''sf:heart.fill'', ''fas fa-heart''),
      (''sf:house.fill'', ''fas fa-home''),
      (''sf:star.fill'', ''fas fa-star''),
      (''sf:person.fill'', ''fas fa-user''),
      (''sf:gear'', ''fas fa-cog''),
      (''sf:trash.fill'', ''fas fa-trash''),
      (''sf:plus.circle.fill'', ''fas fa-plus-circle''),
      (''sf:minus.circle.fill'', ''fas fa-minus-circle''),
      (''sf:checkmark.circle.fill'', ''fas fa-check-circle''),
      (''sf:xmark.circle.fill'', ''fas fa-times-circle''),
      (''sf:arrow.clockwise'', ''fas fa-sync''),
      (''sf:play.circle.fill'', ''fas fa-play-circle''),
      (''sf:pause.circle.fill'', ''fas fa-pause-circle''),
      (''sf:stop.circle.fill'', ''fas fa-stop-circle''),
      (''lu:LuDownload'', ''fas fa-download''),
      (''lu:LuUpload'', ''fas fa-upload''),
      (''lu:LuSettings'', ''fas fa-cog''),
      (''lu:LuUser'', ''fas fa-user''),
      (''lu:LuMail'', ''fas fa-envelope''),
      (''lu:LuPhone'', ''fas fa-phone''),
      (''lu:LuCalendar'', ''fas fa-calendar''),
      (''lu:LuClock'', ''fas fa-clock''),
      (''lu:LuSearch'', ''fas fa-search''),
      (''lu:LuBell'', ''fas fa-bell''),
      (''lu:LuHeart'', ''fas fa-heart''),
      (''lu:LuStar'', ''fas fa-star''),
      (''lu:LuTrash'', ''fas fa-trash''),
      (''lu:LuPlus'', ''fas fa-plus''),
      (''lu:LuMinus'', ''fas fa-minus''),
      (''lu:LuCheck'', ''fas fa-check''),
      (''lu:LuX'', ''fas fa-times''),
      (''lu:LuArrowRight'', ''fas fa-arrow-right''),
      (''lu:LuArrowLeft'', ''fas fa-arrow-left''),
      (''lu:LuArrowUp'', ''fas fa-arrow-up''),
      (''lu:LuArrowDown'', ''fas fa-arrow-down''),
      (''ai:AiDownload'', ''fas fa-download''),
      (''ai:AiUpload'', ''fas fa-upload''),
      (''ai:AiSetting'', ''fas fa-cog''),
      (''ai:AiUser'', ''fas fa-user''),
      (''ai:AiMail'', ''fas fa-envelope''),
      (''fa:FaDownload'', ''fas fa-download''),
      (''fa:FaUpload'', ''fas fa-upload''),
      (''fa:FaCog'', ''fas fa-cog''),
      (''fa:FaUser'', ''fas fa-user''),
      (''fa:FaEnvelope'', ''fas fa-envelope''),
      (''fa:FaPhone'', ''fas fa-phone''),
      (''fa:FaCalendar'', ''fas fa-calendar''),
      (''fa:FaClock'', ''fas fa-clock''),
      (''fa:FaSearch'', ''fas fa-search''),
      (''fa:FaBell'', ''fas fa-bell''),
      (''fa:FaHeart'', ''fas fa-heart''),
      (''fa:FaStar'', ''fas fa-star''),
      (''fa:FaTrash'', ''fas fa-trash''),
      (''fa:FaPlus'', ''fas fa-plus''),
      (''fa:FaMinus'', ''fas fa-minus''),
      (''fa:FaCheck'', ''fas fa-check''),
      (''fa:FaTimes'', ''fas fa-times''),
      (''fa:FaArrowRight'', ''fas fa-arrow-right''),
      (''fa:FaArrowLeft'', ''fas fa-arrow-left''),
      (''fa:FaArrowUp'', ''fas fa-arrow-up''),
      (''fa:FaArrowDown'', ''fas fa-arrow-down'')]"

text \<open>
  \<open>table.get(key, default)\<close> on a table keyed by strings: a list or a dictionary cannot
  be hashed, every other value that is no key of the table gives the default.
\<close>

definition table_get :: "(string \<times> string) list \<Rightarrow> pyval \<Rightarrow> string \<Rightarrow> error + string" where
  "table_get table k d =
     (case k of
        VStr s \<Rightarrow> Inr (case map_of table s of None \<Rightarrow> d | Some c \<Rightarrow> c)
      | VList xs \<Rightarrow> Inl TypeError
      | VDict kvs \<Rightarrow> Inl TypeError
      | _ \<Rightarrow> Inr d)"

definition map_to_icon_class :: "pyval \<Rightarrow> error + string" where
  "map_to_icon_class name = table_get icon_map name ''fas fa-question''"

definition get_text_styles ::
  "py_runtime \<Rightarrow> (string \<rightharpoonup> pyval) \<Rightarrow> pyval \<Rightarrow> pyval \<Rightarrow> pyval \<Rightarrow> string list" where
  "get_text_styles rt props flex width' height' =
     [''font-size: '' @ py_str rt (pget props ''fontSize'' (VInt 14)) @ ''px'',
      ''font-weight: '' @ py_str rt (pget props ''fontWeight'' (VStr ''normal'')),
      ''color: '' @ py_str rt (pget props ''color'' (VStr ''#333333'')),
      ''text-align: '' @ py_str rt (pget props ''textAlign'' (VStr ''left'')),
      ''line-height: '' @ py_str rt (pget props ''lineHeight'' (VFloat (7 / 5)))]
     @ size_styles rt flex width' height'"

definition get_button_styles ::
  "py_runtime \<Rightarrow> (string \<rightharpoonup> pyval) \<Rightarrow> pyval \<Rightarrow> pyval \<Rightarrow> pyval \<Rightarrow> string list" where
  "get_button_styles rt props flex width' height' =
     [''display: flex'',
      ''align-items: center'',
      ''justify-content: center'',
      ''background-color: '' @ py_str rt (pget props ''backgroundColor'' (VStr ''rgba(59, 130, 246, 1)'')),
      ''color: '' @ py_str rt (pget props ''color'' (VStr ''rgba(255, 255, 255, 1)'')),
      ''border-radius: '' @ py_str rt (pget props ''borderRadius'' (VInt 8)) @ ''px'',
      ''font-size: '' @ py_str rt (pget props ''fontSize'' (VInt 14)) @ ''px'',
      ''font-weight: '' @ py_str rt (pget props ''fontWeight'' (VInt 500)),
      ''padding: '' @ py_str rt (pget props ''padding'' (VInt 12)) @ ''px'',
      ''border: '' @ py_str rt (pget props ''border'' (VStr ''none'')),
      ''cursor: pointer'',
      ''user-select: none'',
      ''outline: none'',
      ''transition: all 0.2s ease'']
     @ size_styles rt flex width' height'"

definition get_generic_styles :: "py_runtime \<Rightarrow> pyval \<Rightarrow> pyval \<Rightarrow> pyval \<Rightarrow> string list" where
  "get_generic_styles rt flex width' height' =
     [''display: flex'', ''align-items: center'', ''justify-content: center'']
     @ size_styles rt flex width' height'"

text \<open>A line that embeds a formatted style list; it fails where the formatting does.\<close>

definition styled_line ::
  "string \<Rightarrow> string list \<Rightarrow> string \<Rightarrow> cstate \<Rightarrow> error + cstate" where
  "styled_line before style_entries after st =
     (case format_style_object style_entries of
        Inl e \<Rightarrow> Inl e
      | Inr css \<Rightarrow> Inr (write_line (before @ css @ after) st))"

definition render_text_component ::
  "py_runtime \<Rightarrow> (string \<rightharpoonup> pyval) \<Rightarrow> pyval \<Rightarrow> nat \<Rightarrow> pyval \<Rightarrow> pyval \<Rightarrow> pyval
     \<Rightarrow> cstate \<Rightarrow> error + cstate" where
  "render_text_component rt props content depth flex width' height' st =
     (let indent = indent_of depth;
          style_entries = get_text_styles rt props flex width' height';
          text_content = py_or content (py_or (pget props ''content'' VNone) (VStr []))
      in styled_line (indent @ ''<div style='' @ [CHR 0x22])
           style_entries
           ([CHR 0x22] @ ''>'' @ py_str rt text_content @ ''</div>'') st)"

definition dq :: string where
  "dq = [CHR 0x22]"

text \<open>Consecutive calls of \<open>write\<close>.\<close>

definition write_lines :: "string list \<Rightarrow> cstate \<Rightarrow> cstate" where
  "write_lines ls st = st\<lparr>c_lines := c_lines st @ ls\<rparr>"

definition render_button_component ::
  "py_runtime \<Rightarrow> (string \<rightharpoonup> pyval) \<Rightarrow> nat \<Rightarrow> pyval \<Rightarrow> pyval \<Rightarrow> pyval
     \<Rightarrow> cstate \<Rightarrow> error + cstate" where
  "render_button_component rt props depth flex width' height' st =
     (let indent = indent_of depth;
          icon = pget props ''icon'' VNone;
          content = pget props ''content'' VNone;
          icon_size = pget props ''iconSize'' VNone;
          icon_color = pget props ''iconColor'' VNone;
          style_entries = get_button_styles rt props flex width' height';
          button_id = fst (unique_id rt ''button'' st);
          st1 = snd (unique_id rt ''button'' st)
      in case styled_line (indent @ ''<div id='' @ dq @ button_id @ dq @ '' style='' @ dq)
                style_entries
                (dq @ '' role='' @ dq @ ''button'' @ dq @ '' tabindex='' @ dq @ ''0'' @ dq @ ''>'')
                st1 of
           Inl e \<Rightarrow> Inl e
         | Inr st2 \<Rightarrow>
             (case
                (if truthy icon then
                   (case map_to_icon_class icon of
                      Inl e \<Rightarrow> Inl e
                    | Inr icon_class \<Rightarrow>
                        (case (if truthy icon_size then Inr icon_size
                               else case py_mul (pget props ''fontSize'' (VInt 14)) (VFloat (6 / 5)) of
                                      Inl e \<Rightarrow> Inl e
                                    | Inr scaled \<Rightarrow> Inr (py_or scaled (VFloat (84 / 5)))) of
                           Inl e \<Rightarrow> Inl e
                         | Inr icon_px \<Rightarrow>
                             styled_line (indent @ ''  <i class='' @ dq @ icon_class @ dq @ '' style='' @ dq)
                               [''display: flex'',
                                ''align-items: center'',
                                ''justify-content: center'',
                                ''width: '' @ py_str rt icon_px @ ''px'',
                                ''height: '' @ py_str rt icon_px @ ''px'',
                                ''color: '' @ py_str rt
                                   (py_or icon_color (py_or (pget props ''color'' VNone) (VStr ''white'')))]
                               (dq @ ''></i>'') st2))
                 else if truthy content then
                   Inr (write_line
                         (indent @ ''  <span style='' @ dq
                            @ ''display: flex; align-items: center; justify-content: center;'' @ dq
                            @ ''>'' @ py_str rt content @ ''</span>'') st2)
                 else
                   Inr (write_line
                         (indent @ ''  <span style='' @ dq
                            @ ''display: flex; align-items: center; justify-content: center;'' @ dq
                            @ ''>Button</span>'') st2)) of
                Inl e \<Rightarrow> Inl e
              | Inr st3 \<Rightarrow>
                  Inr (write_script (ButtonScript button_id) (write_line (indent @ ''</div>'') st3))))"

definition render_icon_component ::
  "py_runtime \<Rightarrow> (string \<rightharpoonup> pyval) \<Rightarrow> nat \<Rightarrow> pyval \<Rightarrow> pyval \<Rightarrow> pyval
     \<Rightarrow> cstate \<Rightarrow> error + cstate" where
  "render_icon_component rt props depth flex width' height' st =
     (let indent = indent_of depth;
          name = pget props ''name'' VNone;
          size = pget props ''size'' (VInt 20);
          color = pget props ''color'' (VStr ''rgba(255, 255, 255, 0.85)'');
          style_entries =
            [''display: inline-flex'',
             ''align-items: center'',
             ''justify-content: center'',
             ''width: '' @ py_str rt size @ ''px'',
             ''height: '' @ py_str rt size @ ''px'',
             ''color: '' @ py_str rt color]
            @ size_styles rt flex width' height'
      in case map_to_icon_class name of
           Inl e \<Rightarrow> Inl e
         | Inr icon_class \<Rightarrow>
             styled_line (indent @ ''<i class='' @ dq @ icon_class @ dq @ '' style='' @ dq)
               style_entries (dq @ ''></i>'') st)"

definition render_image_component ::
  "py_runtime \<Rightarrow> (string \<rightharpoonup> pyval) \<Rightarrow> nat \<Rightarrow> pyval \<Rightarrow> pyval \<Rightarrow> pyval
     \<Rightarrow> cstate \<Rightarrow> error + cstate" where
  "render_image_component rt props depth flex width' height' st =
     (let indent = indent_of depth;
          src = pget props ''src'' VNone;
          alt = pget props ''alt'' (VStr []);
          style_entries =
            [''display: block'', ''max-width: 100%'', ''max-height: 100%'']
            @ size_styles rt flex width' height'
      in styled_line
           (indent @ ''<img src='' @ dq @ py_str rt src @ dq @ '' alt='' @ dq @ py_str rt alt @ dq
              @ '' style='' @ dq)
           style_entries (dq @ '' />'') st)"

text \<open>The check mark of the source text, as its UTF-8 bytes.\<close>

definition checkmark :: string where
  "checkmark = [CHR 0xC3, CHR 0xA2, CHR 0xC5, CHR 0x93, CHR 0xE2, CHR 0x80, CHR 0x9C]"

definition render_checkbox_component ::
  "py_runtime \<Rightarrow> (string \<rightharpoonup> pyval) \<Rightarrow> nat \<Rightarrow> pyval \<Rightarrow> pyval \<Rightarrow> pyval
     \<Rightarrow> cstate \<Rightarrow> error + cstate" where
  "render_checkbox_component rt props depth flex width' height' st =
     (let indent = indent_of depth;
          checked = pget props ''checked'' (VBool False);
          style_entries =
            [''width: 20px'',
             ''height: 20px'',
             ''border: 2px solid #ccc'',
             ''border-radius: 4px'',
             ''display: flex'',
             ''align-items: center'',
             ''justify-content: center'',
             ''background-color: '' @ (if truthy checked then ''#007AFF'' else ''white'')]
            @ size_styles rt flex width' height'
      in styled_line (indent @ ''<div style='' @ dq) style_entries
           (dq @ ''>'' @ (if truthy checked then checkmark else []) @ ''</div>'') st)"

definition render_divider_component ::
  "py_runtime \<Rightarrow> (string \<rightharpoonup> pyval) \<Rightarrow> nat \<Rightarrow> pyval \<Rightarrow> pyval \<Rightarrow> pyval
     \<Rightarrow> cstate \<Rightarrow> error + cstate" where
  "render_divider_component rt props depth flex width' height' st =
     (let indent = indent_of depth;
          orientation = pget props ''orientation'' (VStr ''horizontal'');
          color = pget props ''color'' (VStr ''#e0e0e0'');
          thickness = pget props ''thickness'' (VInt 1);
          style_entries =
            [''background-color: '' @ py_str rt color,
             (if orientation = VStr ''horizontal'' then ''height'' else ''width'')
               @ '': '' @ py_str rt thickness @ ''px'',
             (if orientation = VStr ''horizontal'' then ''width'' else ''height'') @ '': 100%'']
            @ (if flex \<noteq> VNone then [''flex: '' @ py_str rt flex] else [])
            @ (if width' \<noteq> VNone \<and> orientation = VStr ''vertical''
               then [''width: '' @ format_css_value rt width'] else [])
            @ (if height' \<noteq> VNone \<and> orientation = VStr ''horizontal''
               then [''height: '' @ format_css_value rt height'] else [])
      in styled_line (indent @ ''<div style='' @ dq) style_entries (dq @ ''></div>'') st)"

definition render_indicator_component ::
  "py_runtime \<Rightarrow> (string \<rightharpoonup> pyval) \<Rightarrow> nat \<Rightarrow> pyval \<Rightarrow> pyval \<Rightarrow> pyval
     \<Rightarrow> cstate \<Rightarrow> error + cstate" where
  "render_indicator_component rt props depth flex width' height' st =
     (let indent = indent_of depth;
          color = pget props ''color'' (VStr ''#34C759'');
          size = pget props ''size'' (VInt 8);
          style_entries =
            [''width: '' @ py_str rt size @ ''px'',
             ''height: '' @ py_str rt size @ ''px'',
             ''border-radius: 50%'',
             ''background-color: '' @ py_str rt color]
            @ size_styles rt flex width' height'
      in styled_line (indent @ ''<div style='' @ dq) style_entries (dq @ ''></div>'') st)"

definition render_progress_bar_component ::
  "py_runtime \<Rightarrow> (string \<rightharpoonup> pyval) \<Rightarrow> nat \<Rightarrow> pyval \<Rightarrow> pyval \<Rightarrow> pyval
     \<Rightarrow> cstate \<Rightarrow> error + cstate" where
  "render_progress_bar_component rt props depth flex width' height' st =
     (let indent = indent_of depth;
          progress = pget props ''progress'' (VFloat (1 / 2));
          color = pget props ''color'' (VStr ''#007AFF'');
          background_color = pget props ''backgroundColor'' (VStr ''#e0e0e0'');
          container_id = fst (unique_id rt ''progress'' st);
          st1 = snd (unique_id rt ''progress'' st);
          container_styles =
            [''width: 100%'',
             ''height: 8px'',
             ''background-color: '' @ py_str rt background_color,
             ''border-radius: 4px'',
             ''overflow: hidden'']
            @ size_styles rt flex width' height'
      in case styled_line (indent @ ''<div id='' @ dq @ container_id @ dq @ '' style='' @ dq)
                container_styles (dq @ ''>'') st1 of
           Inl e \<Rightarrow> Inl e
         | Inr st2 \<Rightarrow>
             (case py_mul progress (VInt 100) of
                Inl e \<Rightarrow> Inl e
              | Inr percent \<Rightarrow>
                  Inr (write_lines
                        [indent @ ''  <div style='' @ dq @ ''width: '' @ py_str rt percent
                           @ ''%; height: 100%; background-color: '' @ py_str rt color
                           @ ''; transition: width 0.3s ease;'' @ dq @ ''></div>'',
                         indent @ ''</div>'']
                        st2)))"

text \<open>The arithmetic of the progress ring, in the order of the source.\<close>

definition normalized_percentage :: "pyval \<Rightarrow> error + pyval" where
  "normalized_percentage percentage =
     (case py_max_int percentage 0 of
        Inl e \<Rightarrow> Inl e
      | Inr m \<Rightarrow> py_min_int m 100)"

definition ring_radius :: "pyval \<Rightarrow> pyval \<Rightarrow> error + pyval" where
  "ring_radius size' stroke_width =
     (case py_sub size' stroke_width of
        Inl e \<Rightarrow> Inl e
      | Inr d \<Rightarrow> py_truediv d (VInt 2))"

definition ring_circumference :: "pyval \<Rightarrow> error + pyval" where
  "ring_circumference radius = py_mul (VFloat (2 * math_pi)) radius"

definition ring_stroke_dashoffset :: "pyval \<Rightarrow> pyval \<Rightarrow> error + pyval" where
  "ring_stroke_dashoffset normalized circumference =
     (case py_truediv normalized (VInt 100) of
        Inl e \<Rightarrow> Inl e
      | Inr fraction \<Rightarrow>
          (case py_mul fraction circumference of
             Inl e \<Rightarrow> Inl e
           | Inr covered \<Rightarrow> py_sub circumference covered))"

definition render_progress_ring_component ::
  "py_runtime \<Rightarrow> (string \<rightharpoonup> pyval) \<Rightarrow> nat \<Rightarrow> pyval \<Rightarrow> pyval \<Rightarrow> pyval
     \<Rightarrow> cstate \<Rightarrow> error + cstate" where
  "render_progress_ring_component rt props depth flex width' height' st =
     (let indent = indent_of depth;
          percentage = pget props ''percentage'' (VInt 0);
          color = pget props ''color'' (VStr ''#34C759'');
          background_color = pget props ''backgroundColor'' (VStr ''#d1d1d6'');
          size = pget props ''size'' (VInt 80);
          stroke_width = pget props ''strokeWidth'' (VInt 6);
          icon_name = pget props ''iconName'' VNone;
          icon_size = pget props ''iconSize'' (VInt 32);
          icon_color = pget props ''iconColor'' (VStr ''#000000'');
          content = pget props ''content'' VNone;
          text_color = pget props ''textColor'' (VStr ''#000000'');
          font_size = pget props ''fontSize'' (VInt 14);
          font_weight = pget props ''fontWeight'' (VInt 500);
          progress_ring_id = fst (unique_id rt ''progressring'' st);
          st1 = snd (unique_id rt ''progressring'' st)
      in case normalized_percentage percentage of
           Inl e \<Rightarrow> Inl e
         | Inr normalized \<Rightarrow>
         (case ring_radius size stroke_width of
            Inl e \<Rightarrow> Inl e
          | Inr radius \<Rightarrow>
          (case ring_circumference radius of
             Inl e \<Rightarrow> Inl e
           | Inr circumference \<Rightarrow>
           (case ring_stroke_dashoffset normalized circumference of
              Inl e \<Rightarrow> Inl e
            | Inr stroke_dashoffset \<Rightarrow>
            (case styled_line (indent @ ''<div id='' @ dq @ progress_ring_id @ dq @ '' style='' @ dq)
                    ([''position: relative'',
                      ''width: '' @ py_str rt size @ ''px'',
                      ''height: '' @ py_str rt size @ ''px'',
                      ''display: flex'',
                      ''align-items: center'',
                      ''justify-content: center'',
                      ''flex: 0 0 auto'',
                      ''flex-shrink: 0'']
                     @ size_styles rt flex width' height')
                    (dq @ ''>'') st1 of
               Inl e \<Rightarrow> Inl e
             | Inr st2 \<Rightarrow>
             (case py_truediv size (VInt 2) of
                Inl e \<Rightarrow> Inl e
              | Inr half \<Rightarrow>
              (case
                 (let st3 = write_lines
                       [indent @ ''  <svg width='' @ dq @ py_str rt size @ dq @ '' height='' @ dq
                          @ py_str rt size @ dq @ '' style='' @ dq @ ''transform: rotate(-90deg);''
                          @ dq @ ''>'',
                        indent @ ''    <circle'',
                        indent @ ''      cx='' @ dq @ py_str rt half @ dq,
                        indent @ ''      cy='' @ dq @ py_str rt half @ dq,
                        indent @ ''      r='' @ dq @ py_str rt radius @ dq,
                        indent @ ''      fill='' @ dq @ ''none'' @ dq,
                        indent @ ''      stroke='' @ dq @ py_str rt background_color @ dq,
                        indent @ ''      stroke-width='' @ dq @ py_str rt stroke_width @ dq,
                        indent @ ''    />'',
                        indent @ ''    <circle'',
                        indent @ ''      id='' @ dq @ progress_ring_id @ ''-progress'' @ dq,
                        indent @ ''      cx='' @ dq @ py_str rt half @ dq,
                        indent @ ''      cy='' @ dq @ py_str rt half @ dq,
                        indent @ ''      r='' @ dq @ py_str rt radius @ dq,
                        indent @ ''      fill='' @ dq @ ''none'' @ dq,
                        indent @ ''      stroke='' @ dq @ py_str rt color @ dq,
                        indent @ ''      stroke-width='' @ dq @ py_str rt stroke_width @ dq,
                        indent @ ''      stroke-dasharray='' @ dq @ py_str rt circumference @ dq,
                        indent @ ''      stroke-dashoffset='' @ dq @ py_str rt stroke_dashoffset @ dq,
                        indent @ ''      stroke-linecap='' @ dq @ ''round'' @ dq,
                        indent @ ''      style='' @ dq @ ''transition: stroke-dashoffset 0.3s ease;'' @ dq,
                        indent @ ''    />'',
                        indent @ ''  </svg>'']
                       st2
                  in if truthy icon_name \<or> truthy content then
                       (let st4 = write_line
                              (indent @ ''  <div style='' @ dq
                                 @ ''position: absolute; top: 50%; left: 50%; transform: translate(-50%, -50%);''
                                 @ dq @ ''>'') st3
                        in case
                             (if truthy icon_name then
                                (case map_to_icon_class icon_name of
                                   Inl e \<Rightarrow> Inl e
                                 | Inr icon_class \<Rightarrow>
                                     styled_line
                                       (indent @ ''    <i class='' @ dq @ icon_class @ dq @ '' style='' @ dq)
                                       [''width: '' @ py_str rt icon_size @ ''px'',
                                        ''height: '' @ py_str rt icon_size @ ''px'',
                                        ''color: '' @ py_str rt icon_color,
                                        ''display: flex'',
                                        ''align-items: center'',
                                        ''justify-content: center'']
                                       (dq @ ''></i>'') st4)
                              else
                                styled_line (indent @ ''    <span style='' @ dq)
                                  [''color: '' @ py_str rt text_color,
                                   ''font-size: '' @ py_str rt font_size @ ''px'',
                                   ''font-weight: '' @ py_str rt font_weight,
                                   ''white-space: nowrap'',
                                   ''display: flex'',
                                   ''align-items: center'',
                                   ''justify-content: center'']
                                  (dq @ ''>'' @ py_str rt content @ ''</span>'') st4) of
                             Inl e \<Rightarrow> Inl e
                           | Inr st5 \<Rightarrow> Inr (write_line (indent @ ''  </div>'') st5))
                     else Inr st3) of
                 Inl e \<Rightarrow> Inl e
               | Inr st6 \<Rightarrow>
                   Inr (write_script
                         (ProgressRingScript progress_ring_id (py_str rt stroke_dashoffset)
                            (py_str rt circumference))
                         (write_line (indent @ ''</div>'') st6)))))))))"

definition render_sparkline_component ::
  "py_runtime \<Rightarrow> (string \<rightharpoonup> pyval) \<Rightarrow> nat \<Rightarrow> pyval \<Rightarrow> pyval \<Rightarrow> pyval
     \<Rightarrow> cstate \<Rightarrow> error + cstate" where
  "render_sparkline_component rt props depth flex width' height' st =
     (let indent = indent_of depth;
          sparkline_id = ''sparkline-'' @ str_int (c_sparkline st);
          st1 = st\<lparr>c_sparkline := c_sparkline st + 1\<rparr>;
          data = pget props ''data'' (VList []);
          color = pget props ''color'' (VStr ''#34C759'');
          w = pget props ''width'' (VInt 80);
          h = pget props ''height'' (VInt 40);
          style_entries =
            [''display: block'', ''width: '' @ py_str rt w @ ''px'', ''height: '' @ py_str rt h @ ''px'']
            @ size_styles rt flex width' height'
      in case styled_line (indent @ ''<canvas id='' @ dq @ sparkline_id @ dq @ '' style='' @ dq)
                style_entries (dq @ ''></canvas>'') st1 of
           Inl e \<Rightarrow> Inl e
         | Inr st2 \<Rightarrow>
             Inr (write_script
                   (SparklineScript sparkline_id (py_str rt w) (py_str rt h)
                      (json_dumps rt data) (json_dumps rt color))
                   st2))"

definition base_option :: "(string \<times> pyval) list" where
  "base_option =
     [(''backgroundColor'', VStr ''transparent''),
      (''tooltip'', VDict [(''show'', VBool False)]),
      (''animation'', VBool False)]"

definition generate_chart_option :: "string \<Rightarrow> (string \<rightharpoonup> pyval) \<Rightarrow> pyval" where
  "generate_chart_option chart_type props =
     (if chart_type = ''LineChart'' then
        VDict (base_option @
          [(''xAxis'', VDict [(''type'', VStr ''category''), (''data'', pget props ''labels'' (VList []))]),
           (''yAxis'', VDict [(''type'', VStr ''value'')]),
           (''series'', VList
              [VDict [(''type'', VStr ''line''),
                      (''data'', pget props ''data'' (VList [])),
                      (''smooth'', VBool (pget props ''smooth'' (VBool True) \<noteq> VBool False)),
                      (''itemStyle'', VDict [(''color'', pget props ''color'' (VStr ''#6DD400''))])]])])
      else if chart_type = ''BarChart'' then
        VDict (base_option @
          [(''xAxis'', VDict [(''type'', VStr ''category''), (''data'', pget props ''labels'' (VList []))]),
           (''yAxis'', VDict [(''type'', VStr ''value'')]),
           (''series'', VList
              [VDict [(''type'', VStr ''bar''),
                      (''data'', pget props ''data'' (VList [])),
                      (''itemStyle'', VDict [(''color'', pget props ''color'' (VStr ''#6DD400''))])]])])
      else if chart_type = ''PieChart'' then
        VDict (base_option @
          [(''series'', VList
              [VDict [(''type'', VStr ''pie''),
                      (''data'', pget props ''data'' (VList [])),
                      (''radius'', if truthy (pget props ''innerRadius'' VNone)
                                   then VList [VStr ''50%'', VStr ''70%''] else VStr ''70%''),
                      (''itemStyle'', VDict [(''color'', pget props ''color'' (VStr ''#6DD400''))])]])])
      else VDict base_option)"

definition render_chart_component ::
  "py_runtime \<Rightarrow> string \<Rightarrow> (string \<rightharpoonup> pyval) \<Rightarrow> nat \<Rightarrow> pyval \<Rightarrow> pyval \<Rightarrow> pyval
     \<Rightarrow> cstate \<Rightarrow> error + cstate" where
  "render_chart_component rt chart_type props depth flex width' height' st =
     (let indent = indent_of depth;
          chart_id = ''chart-'' @ str_int (c_chart st);
          st1 = st\<lparr>c_chart := c_chart st + 1\<rparr>;
          style_entries =
            [''width: 100%'', ''height: 100%'', ''min-height: 200px'']
            @ size_styles rt flex width' height'
      in case styled_line (indent @ ''<div id='' @ dq @ chart_id @ dq @ '' style='' @ dq)
                style_entries (dq @ ''></div>'') st1 of
           Inl e \<Rightarrow> Inl e
         | Inr st2 \<Rightarrow>
             Inr (write_script
                   (ChartScript chart_id (json_dumps rt (generate_chart_option chart_type props)))
                   st2))"

definition render_generic_component ::
  "py_runtime \<Rightarrow> pyval \<Rightarrow> (string \<rightharpoonup> pyval) \<Rightarrow> pyval \<Rightarrow> nat \<Rightarrow> pyval \<Rightarrow> pyval \<Rightarrow> pyval
     \<Rightarrow> cstate \<Rightarrow> error + cstate" where
  "render_generic_component rt component_name props content depth flex width' height' st =
     (let indent = indent_of depth;
          style_entries = get_generic_styles rt flex width' height';
          component_content = py_or content component_name
      in styled_line (indent @ ''<div style='' @ dq) style_entries
           (dq @ ''>'' @ py_str rt component_content @ ''</div>'') st)"

definition main_align_map :: "(string \<times> string) list" where
  "main_align_map =
     [(''start'', ''flex-start''), (''end'', ''flex-end''), (''center'', ''center''),
      (''between'', ''space-between'')]"

definition cross_align_map :: "(string \<times> string) list" where
  "cross_align_map =
     [(''start'', ''flex-start''), (''end'', ''flex-end''), (''center'', ''center'')]"

text \<open>
  The style list of a container: the entries that cannot fail, then the two alignment
  lookups, which raise on a key that cannot be hashed.
\<close>

definition container_base_styles :: "py_runtime \<Rightarrow> dsl_fields \<Rightarrow> string list" where
  "container_base_styles rt f =
     (let direction = nget (n_direction f) (VStr ''row'');
          gap = nget (n_gap f) (VInt 8);
          padding = nget (n_padding f) VNone;
          flex = nget (n_flex f) VNone;
          width' = nget (n_width f) VNone;
          height' = nget (n_height f) VNone;
          background_color = nget (n_backgroundColor f) VNone;
          border_radius = nget (n_borderRadius f) VNone
      in [''display: flex'',
          ''flex-direction: '' @ (if direction = VStr ''col'' then ''column'' else ''row'')]
         @ (if truthy gap then [''gap: '' @ py_str rt gap @ ''px''] else [])
         @ (if truthy padding then [''padding: '' @ py_str rt padding @ ''px''] else [])
         @ (if flex \<noteq> VNone then [''flex: '' @ py_str rt flex] else [])
         @ (if width' \<noteq> VNone then [''width: '' @ format_css_value rt width'] else [])
         @ (if height' \<noteq> VNone then [''height: '' @ format_css_value rt height'] else [])
         @ (if truthy background_color
            then [''background-color: '' @ py_str rt background_color] else [])
         @ (if border_radius \<noteq> VNone
            then [''border-radius: '' @ py_str rt border_radius @ ''px''] else []))"

definition container_styles :: "py_runtime \<Rightarrow> dsl_fields \<Rightarrow> error + string list" where
  "container_styles rt f =
     (let align_main = nget (n_alignMain f) VNone;
          align_cross = nget (n_alignCross f) VNone;
          css_styles = container_base_styles rt f
      in case (if truthy align_main
               then (case table_get main_align_map align_main (py_str rt align_main) of
                       Inl e \<Rightarrow> Inl e
                     | Inr justify \<Rightarrow> Inr (css_styles @ [''justify-content: '' @ justify]))
               else Inr css_styles) of
           Inl e \<Rightarrow> Inl e
         | Inr with_main \<Rightarrow>
             (if truthy align_cross
              then (case table_get cross_align_map align_cross (py_str rt align_cross) of
                      Inl e \<Rightarrow> Inl e
                    | Inr items \<Rightarrow> Inr (with_main @ [''align-items: '' @ items]))
              else Inr with_main))"

text \<open>The dispatch of a leaf on its component name.\<close>

definition render_component ::
  "py_runtime \<Rightarrow> pyval \<Rightarrow> (string \<rightharpoonup> pyval) \<Rightarrow> pyval \<Rightarrow> nat \<Rightarrow> pyval \<Rightarrow> pyval \<Rightarrow> pyval
     \<Rightarrow> cstate \<Rightarrow> error + cstate" where
  "render_component rt component_name merged_props content depth flex width' height' st =
     (if component_name = VStr ''Text'' then
        render_text_component rt merged_props content depth flex width' height' st
      else if component_name = VStr ''Button'' then
        render_button_component rt merged_props depth flex width' height' st
      else if component_name = VStr ''Icon'' then
        render_icon_component rt merged_props depth flex width' height' st
      else if component_name = VStr ''Image'' then
        render_image_component rt merged_props depth flex width' height' st
      else if component_name = VStr ''Checkbox'' then
        render_checkbox_component rt merged_props depth flex width' height' st
      else if component_name = VStr ''Divider'' then
        render_divider_component rt merged_props depth flex width' height' st
      else if component_name = VStr ''Indicator'' then
        render_indicator_component rt merged_props depth flex width' height' st
      else if component_name = VStr ''ProgressBar'' then
        render_progress_bar_component rt merged_props depth flex width' height' st
      else if component_name = VStr ''ProgressRing'' then
        render_progress_ring_component rt merged_props depth flex width' height' st
      else if component_name = VStr ''Sparkline'' then
        render_sparkline_component rt merged_props depth flex width' height' st
      else if component_name = VStr ''LineChart'' then
        render_chart_component rt ''LineChart'' merged_props depth flex width' height' st
      else if component_name = VStr ''BarChart'' then
        render_chart_component rt ''BarChart'' merged_props depth flex width' height' st
      else if component_name = VStr ''StackedBarChart'' then
        render_chart_component rt ''StackedBarChart'' merged_props depth flex width' height' st
      else if component_name = VStr ''RadarChart'' then
        render_chart_component rt ''RadarChart'' merged_props depth flex width' height' st
      else if component_name = VStr ''PieChart'' then
        render_chart_component rt ''PieChart'' merged_props depth flex width' height' st
      else
        render_generic_component rt component_name merged_props content depth flex width' height' st)"

text \<open>
  The leaf branch of \<open>render_node\<close>: the component check and the merged properties. A
  component name that is a list or a dictionary cannot be looked up in a set.
\<close>

definition render_leaf :: "py_runtime \<Rightarrow> dsl_fields \<Rightarrow> nat \<Rightarrow> cstate \<Rightarrow> error + cstate" where
  "render_leaf rt f depth st =
     (let component_name = nget (n_component f) VNone;
          props = (case n_props f of None \<Rightarrow> Map.empty | Some p \<Rightarrow> p);
          flex = nget (n_flex f) VNone;
          width' = nget (n_width f) VNone;
          height' = nget (n_height f) VNone;
          content = nget (n_content f) VNone
      in if \<not> truthy component_name then Inl InvalidLeaf
         else
           (case component_name of
              VList xs \<Rightarrow> Inl TypeError
            | VDict kvs \<Rightarrow> Inl TypeError
            | _ \<Rightarrow>
                render_component rt component_name
                  (if truthy content
                      \<and> (component_name = VStr ''Button'' \<or> component_name = VStr ''ProgressRing'')
                   then props(''content'' \<mapsto> content) else props)
                  content depth flex width' height' st))"

function render_node :: "py_runtime \<Rightarrow> dsl_node \<Rightarrow> nat \<Rightarrow> cstate \<Rightarrow> error + cstate"
and render_children :: "py_runtime \<Rightarrow> dsl_node list \<Rightarrow> nat \<Rightarrow> cstate \<Rightarrow> error + cstate"
where
  "render_node rt (DslNode f kids) depth st =
     (let indent = indent_of depth in
      if n_type f = Some (VStr ''container'') then
        (case container_styles rt f of
           Inl e \<Rightarrow> Inl e
         | Inr css_styles \<Rightarrow>
             (case styled_line (indent @ ''<div style='' @ dq) css_styles (dq @ ''>'') st of
                Inl e \<Rightarrow> Inl e
              | Inr st1 \<Rightarrow>
                  (case render_children rt (case kids of None \<Rightarrow> [] | Some cs \<Rightarrow> cs)
                          (depth + 1) st1 of
                     Inl e \<Rightarrow> Inl e
                   | Inr st2 \<Rightarrow> Inr (write_line (indent @ ''</div>'') st2))))
      else if n_type f = Some (VStr ''leaf'') then render_leaf rt f depth st
      else Inr st)"
| "render_children rt [] depth st = Inr st"
| "render_children rt (child # rest) depth st =
     (case render_node rt child depth st of
        Inl e \<Rightarrow> Inl e
      | Inr st1 \<Rightarrow> render_children rt rest depth st1)"
  by pat_completeness auto
termination
  by (relation "measure (\<lambda>x. case x of
          Inl (rt, n, a) \<Rightarrow> 2 * size n
        | Inr (rt, cs, a) \<Rightarrow> 2 * size_list size cs + 1)")
     (auto split: option.splits)

record document =
  doc_widget_style :: string
  doc_styles :: "string list"
  doc_lines :: "string list"
  doc_scripts :: "script list"

text \<open>The truth value of a node: a dictionary is false exactly when it has no key.\<close>

fun node_is_empty :: "dsl_node \<Rightarrow> bool" where
  "node_is_empty (DslNode f kids) = (f = empty_fields \<and> kids = None)"

definition empty_widget :: widget where
  "empty_widget =
     \<lparr>w_root = None, w_backgroundColor = None, w_borderRadius = None, w_padding = None,
      w_width = None, w_height = None, w_aspectRatio = None\<rparr>"

definition get_widget :: "widget_dsl \<Rightarrow> widget" where
  "get_widget widget_dsl = (case ws_widget widget_dsl of None \<Rightarrow> empty_widget | Some w \<Rightarrow> w)"


definition widget_styles :: "py_runtime \<Rightarrow> widget \<Rightarrow> string list" where
  "widget_styles rt w =
     (let background_color = nget (w_backgroundColor w) VNone;
          border_radius = nget (w_borderRadius w) VNone;
          padding = nget (w_padding w) VNone;
          width' = nget (w_width w) VNone;
          height' = nget (w_height w) VNone
      in [''background-color: '' @ py_str rt (py_or background_color (VStr ''#f2f2f7'')),
          ''border-radius: ''
            @ py_str rt (if border_radius \<noteq> VNone then border_radius else VInt 20) @ ''px'',
          ''padding: '' @ py_str rt (if padding \<noteq> VNone then padding else VInt 16) @ ''px'',
          ''overflow: hidden'',
          ''display: inline-flex'',
          ''flex-direction: column'',
          ''box-sizing: border-box'']
         @ (if width' \<noteq> VNone then [''width: '' @ format_css_value rt width'] else [])
         @ (if height' \<noteq> VNone then [''height: '' @ format_css_value rt height'] else []))"

definition compile_widget_dsl_to_html :: "py_runtime \<Rightarrow> widget_dsl \<Rightarrow> error + document" where
  "compile_widget_dsl_to_html rt widget_dsl =
     (case w_root (get_widget widget_dsl) of
        None \<Rightarrow> Inl InvalidSpec
      | Some root_node \<Rightarrow>
          if node_is_empty root_node then Inl InvalidSpec
          else
            (case render_node rt root_node 0 init_state of
               Inl e \<Rightarrow> Inl e
             | Inr st \<Rightarrow>
                 (case format_style_object (widget_styles rt (get_widget widget_dsl)) of
                    Inl e \<Rightarrow> Inl e
                  | Inr css \<Rightarrow>
                      Inr \<lparr>doc_widget_style = css, doc_styles = c_styles st,
                           doc_lines = c_lines st, doc_scripts = c_scripts st\<rparr>)))"
section \<open>Outcomes\<close>

text \<open>
  An error other than the two hard errors of the compiler, a style list whose every entry
  has the colon that \<open>format_style_object\<close> splits at, and a run that returns.
\<close>

definition python_error :: "error \<Rightarrow> bool" where
  "python_error e = (e = TypeError \<or> e = ValueError \<or> e = ZeroDivisionError)"

definition has_colon :: "string list \<Rightarrow> bool" where
  "has_colon es = list_all (\<lambda>s. CHR '':'' \<in> set s) es"

definition succeeds :: "error + 'a \<Rightarrow> bool" where
  "succeeds r = (\<exists>x. r = Inr x)"


section \<open>The specification's wording of gap and main-axis alignment\<close>

definition leading_edge :: "string \<Rightarrow> Rect \<Rightarrow> rat" where
  "leading_edge direction r = (if direction = ''row'' then left r else top r)"

definition trailing_edge :: "string \<Rightarrow> Rect \<Rightarrow> rat" where
  "trailing_edge direction r = (if direction = ''row'' then right r else bottom r)"

definition main_size :: "string \<Rightarrow> Rect \<Rightarrow> rat" where
  "main_size direction r = (if direction = ''row'' then width r else height r)"

definition main_center :: "string \<Rightarrow> Rect \<Rightarrow> rat" where
  "main_center direction r = (if direction = ''row'' then center_x r else center_y r)"

fun adjacent_pairs :: "'a list \<Rightarrow> ('a \<times> 'a) list" where
  "adjacent_pairs (a # b # xs) = (a, b) # adjacent_pairs (b # xs)"
| "adjacent_pairs xs = []"

definition median_value :: "rat list \<Rightarrow> rat" where
  "median_value xs =
     (let s = sort xs; n = length s in
      if odd n then s ! (n div 2) else fdiv (fadd (s ! (n div 2 - 1)) (s ! (n div 2))) 2)"

definition spec_gap :: "layout_node list \<Rightarrow> string \<Rightarrow> int" where
  "spec_gap children direction =
     (let rects = sort_key (leading_edge direction)
                    (map rect_from_bounds (List.map_filter node_bounds children));
          distances = map (\<lambda>(a, b). fsub (leading_edge direction b) (trailing_edge direction a))
                        (adjacent_pairs rects);
          positive = filter (\<lambda>d. 0 < d) distances
      in if length children < 2 \<or> positive = [] then 0
         else py_round (median_value positive))"

definition spec_align_main :: "Rect \<Rightarrow> Rect list \<Rightarrow> string \<Rightarrow> string option" where
  "spec_align_main container children direction =
     (if children = [] then None
      else
        let tol = max 8 (fmul (main_size direction container) (8 / 100));
            first_leading = leading_edge direction (hd children);
            last_trailing = trailing_edge direction (last children);
            combined_start = Min (leading_edge direction ` set children);
            combined_end = Max (trailing_edge direction ` set children);
            combined_center = fdiv (fadd combined_start combined_end) 2
        in if 2 \<le> length children
              \<and> \<bar>fsub first_leading (leading_edge direction container)\<bar> \<le> tol
              \<and> \<bar>fsub (trailing_edge direction container) last_trailing\<bar> \<le> tol
           then Some ''between''
           else if \<bar>fsub combined_center (main_center direction container)\<bar> \<le> tol then Some ''center''
           else if \<bar>fsub combined_start (leading_edge direction container)\<bar> \<le> tol then Some ''start''
           else if \<bar>fsub (trailing_edge direction container) combined_end\<bar> \<le> tol then Some ''end''
           else Some ''start'')"

section \<open>Example inputs\<close>

definition example_node :: "rat \<times> rat \<times> rat \<times> rat \<Rightarrow> layout_node" where
  "example_node b =
     LayoutNode \<lparr>l_bounds = Some b, l_type = Some ''view'', l_direction = None,
                 l_text = None, l_content = None, l_num_line = None\<rparr> None"

definition unknown_leaf :: layout_node where
  "unknown_leaf =
     LayoutNode \<lparr>l_bounds = Some (0, 0, 40, 20), l_type = Some ''Spacer'', l_direction = None,
                 l_text = None, l_content = None, l_num_line = None\<rparr> None"

definition example_runtime :: py_runtime where
  "example_runtime =
     \<lparr>float_repr = (\<lambda>r. ''<float>''), container_repr = (\<lambda>v. ''<container>''),
      json_dumps = (\<lambda>v. ''<json>''), clock_ms = (\<lambda>k. 1700000000000 + int k),
      token_hex = (\<lambda>k. ''0000000'' @ [digit_char (k mod 10)])\<rparr>"

definition untyped_node :: dsl_node where
  "untyped_node = DslNode (empty_fields\<lparr>n_component := Some (VStr ''Text'')\<rparr>) None"

definition unnamed_leaf :: dsl_node where
  "unnamed_leaf = DslNode (empty_fields\<lparr>n_type := Some (VStr ''leaf'')\<rparr>) None"

definition root_widget :: "dsl_node \<Rightarrow> widget_dsl" where
  "root_widget n = \<lparr>ws_widget = Some (empty_widget\<lparr>w_root := Some n\<rparr>)\<rparr>"

section \<open>Properties of the inference engine\<close>

subsection \<open>Rounding\<close>



subsection \<open>Font size estimation\<close>



subsection \<open>Gap inference\<close>

lemma adjacent_pairs_zip: "adjacent_pairs xs = zip xs (tl xs)"
  by (induction xs rule: adjacent_pairs.induct) auto

lemma sort_eq_Nil: "(sort xs = []) = (xs = [])"
  using length_sort [of "\<lambda>x. x" xs] by (metis length_0_conv)

lemma median_nonempty: "xs \<noteq> [] \<Longrightarrow> median xs = Inr (median_value xs)"
  by (auto simp: median_def median_value_def Let_def odd_iff_mod_2_eq_one sort_eq_Nil)

lemma zip_tl_short: "length xs < 2 \<Longrightarrow> zip xs (tl xs) = []"
  by (cases xs) (auto simp: Suc_less_eq)

lemma infer_gap_eq_spec_gap:
  "infer_gap children direction = Inr (spec_gap children direction)
   \<and> (length children < 2 \<longrightarrow> infer_gap children direction = Inr 0)"
proof -
  define rects where "rects = map rect_from_bounds (List.map_filter node_bounds children)"
  have key: "(\<lambda>rect. if (if direction = ''row'' then ''x'' else ''y'') = ''x''
                      then left rect else top rect) = leading_edge direction"
    by (auto simp: leading_edge_def fun_eq_iff)
  have dist: "(\<lambda>(prev, curr). if (if direction = ''row'' then ''x'' else ''y'') = ''x''
                      then fsub (left curr) (right prev) else fsub (top curr) (bottom prev))
              = (\<lambda>(a, b). fsub (leading_edge direction b) (trailing_edge direction a))"
    by (auto simp: leading_edge_def trailing_edge_def fun_eq_iff)
  have short: "length rects < 2 \<Longrightarrow>
      zip (sort_key (leading_edge direction) rects) (tl (sort_key (leading_edge direction) rects)) = []"
    by (rule zip_tl_short) simp
  show ?thesis
    unfolding infer_gap_def spec_gap_def Let_def key dist adjacent_pairs_zip rects_def [symmetric]
    using short by (auto simp: median_nonempty)
qed


lemma median_single: "median [g] = Inr g"
  by (simp add: median_def)

lemma infer_gap_two_children:
  assumes b1: "node_bounds c1 = Some b1" and b2: "node_bounds c2 = Some b2"
    and le: "leading_edge direction (rect_from_bounds b1) \<le> leading_edge direction (rect_from_bounds b2)"
    and g: "0 < fsub (leading_edge direction (rect_from_bounds b2))
                     (trailing_edge direction (rect_from_bounds b1))"
  shows "infer_gap [c1, c2] direction =
           Inr (py_round (fsub (leading_edge direction (rect_from_bounds b2))
                               (trailing_edge direction (rect_from_bounds b1))))"
  using le g
  by (cases "direction = ''row''")
     (simp_all add: infer_gap_def map_filter_simps b1 b2 leading_edge_def trailing_edge_def
        median_single)

lemma infer_gap_two_children_swapped:
  assumes b1: "node_bounds c1 = Some b1" and b2: "node_bounds c2 = Some b2"
    and le: "leading_edge direction (rect_from_bounds b1) < leading_edge direction (rect_from_bounds b2)"
    and g: "0 < fsub (leading_edge direction (rect_from_bounds b2))
                     (trailing_edge direction (rect_from_bounds b1))"
  shows "infer_gap [c2, c1] direction =
           Inr (py_round (fsub (leading_edge direction (rect_from_bounds b2))
                               (trailing_edge direction (rect_from_bounds b1))))"
  using le g
  by (cases "direction = ''row''")
     (simp_all add: infer_gap_def map_filter_simps b1 b2 leading_edge_def trailing_edge_def
        median_single)

text \<open>
  Claim C4. For every child list and direction the inferred gap is the rounded median of
  the positive distances from one child's trailing edge to the next child's leading edge,
  the children taken in the order of their leading edges on the main axis, and it is 0
  with fewer than two children or with no positive distance; \<open>infer_gap\<close> never raises.
  The distances and the mean of the two middle ones are computed in doubles, as the code
  computes them. In particular two children that lie a positive distance \<open>g\<close> apart on
  the main axis, \<open>g\<close> being the difference of the two edges in doubles, give \<open>round(g)\<close>,
  in whichever order they are listed.
\<close>

theorem infer_gap_refines_spec:
  "infer_gap children direction = Inr (spec_gap children direction)
   \<and> (length children < 2 \<longrightarrow> infer_gap children direction = Inr 0)
   \<and> (node_bounds c1 = Some b1 \<and> node_bounds c2 = Some b2
        \<and> leading_edge direction (rect_from_bounds b1) \<le> leading_edge direction (rect_from_bounds b2)
        \<and> 0 < fsub (leading_edge direction (rect_from_bounds b2))
                   (trailing_edge direction (rect_from_bounds b1))
      \<longrightarrow> infer_gap [c1, c2] direction =
            Inr (py_round (fsub (leading_edge direction (rect_from_bounds b2))
                                (trailing_edge direction (rect_from_bounds b1)))))
   \<and> (node_bounds c1 = Some b1 \<and> node_bounds c2 = Some b2
        \<and> leading_edge direction (rect_from_bounds b1) < leading_edge direction (rect_from_bounds b2)
        \<and> 0 < fsub (leading_edge direction (rect_from_bounds b2))
                   (trailing_edge direction (rect_from_bounds b1))
      \<longrightarrow> infer_gap [c2, c1] direction =
            Inr (py_round (fsub (leading_edge direction (rect_from_bounds b2))
                                (trailing_edge direction (rect_from_bounds b1)))))"
  using infer_gap_eq_spec_gap [of children direction]
    infer_gap_two_children [of c1 b1 c2 b2 direction]
    infer_gap_two_children_swapped [of c1 b1 c2 b2 direction]
  by blast

theorem infer_gap_refines_spec_witness:
  "infer_gap [example_node (0, 0, 10, 10), example_node (40, 0, 50, 10), example_node (15, 0, 32, 10)] ''row''
     = Inr (spec_gap [example_node (0, 0, 10, 10), example_node (40, 0, 50, 10), example_node (15, 0, 32, 10)] ''row'')
   \<and> spec_gap [example_node (0, 0, 10, 10), example_node (40, 0, 50, 10), example_node (15, 0, 32, 10)] ''row'' = 6
   \<and> infer_gap [example_node (0, 0, 10, 10)] ''col'' = Inr 0
   \<and> infer_gap [example_node (0, 0, 10, 10), example_node (0, 17, 10, 30)] ''col'' = Inr 7
   \<and> infer_gap [example_node (0, 17, 10, 30), example_node (0, 0, 10, 10)] ''col'' = Inr 7
   \<and> infer_gap [example_node (0, 0, 6 / 10, 10), example_node (11 / 10, 0, 5, 10)] ''row'' = Inr 1"
proof -
  have nb: "node_bounds (example_node (0, 0, 10, 10)) = Some (0, 0, 10, 10)"
    "node_bounds (example_node (0, 17, 10, 30)) = Some (0, 17, 10, 30)"
    by (simp_all add: node_bounds_def example_node_def)
  have le: "leading_edge ''col'' (rect_from_bounds (0, 0, 10, 10))
              < leading_edge ''col'' (rect_from_bounds (0, 17, 10, 30))"
    by (simp add: leading_edge_def rect_from_bounds_def)
  have g: "fsub (leading_edge ''col'' (rect_from_bounds (0, 17, 10, 30)))
             (trailing_edge ''col'' (rect_from_bounds (0, 0, 10, 10))) = 7"
    by code_simp
  have r: "py_round 7 = 7" by (simp add: py_round_def)
  have nb2: "node_bounds (example_node (0, 0, 6 / 10, 10)) = Some (0, 0, 6 / 10, 10)"
    "node_bounds (example_node (11 / 10, 0, 5, 10)) = Some (11 / 10, 0, 5, 10)"
    by (simp_all add: node_bounds_def example_node_def)
  have le2: "leading_edge ''row'' (rect_from_bounds (0, 0, 6 / 10, 10))
              \<le> leading_edge ''row'' (rect_from_bounds (11 / 10, 0, 5, 10))"
    by (simp add: leading_edge_def rect_from_bounds_def)
  have g2: "0 < fsub (leading_edge ''row'' (rect_from_bounds (11 / 10, 0, 5, 10)))
                  (trailing_edge ''row'' (rect_from_bounds (0, 0, 6 / 10, 10)))"
    "py_round (fsub (leading_edge ''row'' (rect_from_bounds (11 / 10, 0, 5, 10)))
                  (trailing_edge ''row'' (rect_from_bounds (0, 0, 6 / 10, 10)))) = 1"
    by code_simp+
  have six: "spec_gap [example_node (0, 0, 10, 10), example_node (40, 0, 50, 10), example_node (15, 0, 32, 10)] ''row'' = 6"
    by code_simp
  have z: "spec_gap [example_node (0, 0, 10, 10)] ''col'' = 0"
    by code_simp
  show ?thesis
    using infer_gap_refines_spec [of
        "[example_node (0, 0, 10, 10), example_node (40, 0, 50, 10), example_node (15, 0, 32, 10)]"
        "''row''"]
      infer_gap_refines_spec [of "[example_node (0, 0, 10, 10)]" "''col''"
        "example_node (0, 0, 10, 10)" "(0, 0, 10, 10)" "example_node (0, 17, 10, 30)" "(0, 17, 10, 30)"]
      infer_gap_refines_spec [of "[]" "''row''"
        "example_node (0, 0, 6 / 10, 10)" "(0, 0, 6 / 10, 10)"
        "example_node (11 / 10, 0, 5, 10)" "(11 / 10, 0, 5, 10)"]
      nb le g r six z nb2 le2 g2
    by simp
qed

subsection \<open>Main-axis alignment\<close>

text \<open>
  Claim C5, as amended. For a non-empty list of child rectangles, with
  \<open>tol = max(8, 0.08 * mainAxisSize)\<close>, \<open>align_main\<close> reports \<open>between\<close> if there are
  at least two children and both the smallest leading edge of any child and the largest
  trailing edge of any child lie within \<open>tol\<close> of the container's edges; else
  \<open>center\<close> if the midpoint of these two extremes lies within \<open>tol\<close> of the container's
  centre; else \<open>start\<close> if the smallest leading edge lies within \<open>tol\<close> of the
  container's start; else \<open>end\<close> if the largest trailing edge lies within \<open>tol\<close> of
  its end; otherwise \<open>start\<close>.
\<close>

theorem align_main_by_extreme_edges:
  "align_main container children direction =
     (if children = [] then None
      else
        let tol = max 8 (fmul (main_size direction container) (8 / 100));
            child_start = Min (leading_edge direction ` set children);
            child_end = Max (trailing_edge direction ` set children)
        in Some (if 2 \<le> length children
                    \<and> \<bar>fsub child_start (leading_edge direction container)\<bar> \<le> tol
                    \<and> \<bar>fsub (trailing_edge direction container) child_end\<bar> \<le> tol
                 then ''between''
                 else if \<bar>fsub (fdiv (fadd child_start child_end) 2)
                                (main_center direction container)\<bar> \<le> tol
                 then ''center''
                 else if \<bar>fsub child_start (leading_edge direction container)\<bar> \<le> tol
                 then ''start''
                 else if \<bar>fsub (trailing_edge direction container) child_end\<bar> \<le> tol
                 then ''end''
                 else ''start''))"
proof (cases "children = []")
  case True
  then show ?thesis by (simp add: align_main_def)
next
  case False
  have l: "(\<lambda>child. if direction = ''row'' then left child else top child) = leading_edge direction"
    by (auto simp: leading_edge_def fun_eq_iff)
  have t: "(\<lambda>child. if direction = ''row'' then right child else bottom child) = trailing_edge direction"
    by (auto simp: trailing_edge_def fun_eq_iff)
  have len: "(1 < length children) = (2 \<le> length children)" by auto
  show ?thesis
    unfolding align_main_def l t set_map len
    by (simp only: False if_False Let_def leading_edge_def trailing_edge_def main_size_def
        main_center_def if_distrib [of Some] cong: if_cong)
qed

text \<open>
  The tolerance is compared in doubles: a single child from 22.4 to 140 in a container
  from 0 to 140 has its centre 11.200000000000003 away from the container's, the
  tolerance is 11.200000000000001, and the answer is \<open>end\<close>.
\<close>

lemma align_main_fractional_example:
  "align_main \<lparr>left = 0, top = 0, right = 140, bottom = 20\<rparr>
     [\<lparr>left = 224 / 10, top = 0, right = 140, bottom = 20\<rparr>] ''row'' = Some ''end''"
  by code_simp

text \<open>
  The claim as the specification words it reads the first child's leading edge and the
  last child's trailing edge (\<open>spec_align_main\<close>). With a second child that lies inside
  the span of the first, the last child's trailing edge is far from the container's end
  while the largest trailing edge touches it: the code answers \<open>between\<close>, the wording
  \<open>center\<close>.
\<close>

theorem align_main_first_last_counterexample:
  "align_main \<lparr>left = 0, top = 0, right = 100, bottom = 20\<rparr>
     [\<lparr>left = 0, top = 0, right = 100, bottom = 20\<rparr>,
      \<lparr>left = 10, top = 0, right = 20, bottom = 20\<rparr>] ''row'' = Some ''between''
   \<and> spec_align_main \<lparr>left = 0, top = 0, right = 100, bottom = 20\<rparr>
     [\<lparr>left = 0, top = 0, right = 100, bottom = 20\<rparr>,
      \<lparr>left = 10, top = 0, right = 20, bottom = 20\<rparr>] ''row'' = Some ''center''"
  by code_simp

subsection \<open>Node classification\<close>

lemma leaf_component_None_iff:
  "(leaf_component node = None) =
     (lower (case l_type (node_fields node) of None \<Rightarrow> [] | Some t \<Rightarrow> t)
        \<notin> {''text'', ''paragraph'', ''icon'', ''image''})"
  by (simp add: leaf_component_def Let_def)

lemma infer_gap_Nil: "infer_gap [] direction = Inr 0"
  by (simp add: infer_gap_def)

text \<open>
  Claim C1, as amended. A layout node with no children whose type, read without regard to
  case, is none of \<open>text\<close>, \<open>paragraph\<close>, \<open>icon\<close> and \<open>image\<close> is converted by
  \<open>convert_node\<close> into a container with no children: direction from the hint, gap 0,
  no alignment fields, and \<open>flex\<close> as for any container. \<open>UnsupportedNodeType\<close> is raised
  only by \<open>convert_leaf\<close> when it is called on such a node itself.
\<close>

theorem convert_node_childless_unknown_type:
  assumes kids: "node_children node = []"
    and ty: "lower (case l_type (node_fields node) of None \<Rightarrow> [] | Some t \<Rightarrow> t)
               \<notin> {''text'', ''paragraph'', ''icon'', ''image''}"
  shows "convert_node node physical_size virtual_size parent_rect parent_direction =
           Inr (DslNode
                 (empty_fields
                    \<lparr>n_type := Some (VStr ''container''),
                     n_direction := Some (VStr (map_direction (l_direction (node_fields node)))),
                     n_gap := Some (VInt 0),
                     n_flex := map_option VFloat
                       (infer_flex
                          (rect_from_bounds (case node_bounds node of None \<Rightarrow> (0, 0, 0, 0) | Some b \<Rightarrow> b))
                          parent_rect parent_direction)\<rparr>)
                 (Some []))
         \<and> convert_leaf node rect physical_size virtual_size = Inl UnsupportedNodeType"
proof (cases node)
  case (LayoutNode f k)
  have lc: "leaf_component node = None" using ty by (simp add: leaf_component_None_iff)
  have k: "(case k of None \<Rightarrow> [] | Some cs \<Rightarrow> cs) = []" using kids LayoutNode by simp
  show ?thesis
    using lc k unfolding LayoutNode
    by (simp add: convert_leaf_def infer_gap_Nil align_main_def align_cross_def node_bounds_def empty_fields_def
        map_filter_simps)
qed


theorem convert_node_childless_unknown_type_witness:
  "node_children unknown_leaf = []
   \<and> lower (case l_type (node_fields unknown_leaf) of None \<Rightarrow> [] | Some t \<Rightarrow> t)
        \<notin> {''text'', ''paragraph'', ''icon'', ''image''}
   \<and> convert_node unknown_leaf (672, 1317) (360, 720) None None =
        Inr (DslNode
              (empty_fields
                 \<lparr>n_type := Some (VStr ''container''), n_direction := Some (VStr ''col''),
                  n_gap := Some (VInt 0)\<rparr>)
              (Some []))
   \<and> convert_leaf unknown_leaf (rect_from_bounds (0, 0, 40, 20)) (672, 1317) (360, 720)
        = Inl UnsupportedNodeType"
proof -
  have k: "node_children unknown_leaf = []" by (simp add: unknown_leaf_def)
  have t: "lower (case l_type (node_fields unknown_leaf) of None \<Rightarrow> [] | Some t \<Rightarrow> t)
        \<notin> {''text'', ''paragraph'', ''icon'', ''image''}"
    by (simp add: unknown_leaf_def lower_def lower_char_def)
  have d: "map_direction (l_direction (node_fields unknown_leaf)) = ''col''"
    by (simp add: unknown_leaf_def map_direction_def)
  show ?thesis
    using convert_node_childless_unknown_type [OF k t, of "(672, 1317)" "(360, 720)" None None
        "rect_from_bounds (0, 0, 40, 20)"] k t d
    by (simp add: infer_flex_def empty_fields_def)
qed

text \<open>
  The claim as stated fails: a childless node of type \<open>Spacer\<close> is converted, and no
  error is raised.
\<close>

theorem convert_node_unsupported_counterexample:
  "node_children unknown_leaf = []
   \<and> lower (case l_type (node_fields unknown_leaf) of None \<Rightarrow> [] | Some t \<Rightarrow> t)
        \<notin> {''text'', ''paragraph'', ''icon'', ''image''}
   \<and> convert_node unknown_leaf (672, 1317) (360, 720) None None \<noteq> Inl UnsupportedNodeType"
  by (simp add: unknown_leaf_def lower_def lower_char_def leaf_component_def infer_gap_def
      align_main_def align_cross_def map_filter_simps)


subsection \<open>Flex ratio\<close>

lemma convert_container_flex:
  "convert_container node rect physical_size virtual_size parent_rect parent_direction = Inr d
   \<Longrightarrow> n_flex (dsl_fields_of d) = map_option VFloat (infer_flex rect parent_rect parent_direction)"
  by (cases node) (auto simp: Let_def split: sum.splits)

lemma convert_node_container_flex:
  assumes "convert_node node physical_size virtual_size parent_rect parent_direction = Inr d"
    and "leaf_component node = None \<or> node_children node \<noteq> []"
  shows "n_flex (dsl_fields_of d) =
           map_option VFloat
             (infer_flex
                (rect_from_bounds (case node_bounds node of None \<Rightarrow> (0, 0, 0, 0) | Some b \<Rightarrow> b))
                parent_rect parent_direction)"
proof (cases node)
  case (LayoutNode f k)
  have "convert_container node
          (rect_from_bounds (case node_bounds node of None \<Rightarrow> (0, 0, 0, 0) | Some b \<Rightarrow> b))
          physical_size virtual_size parent_rect parent_direction = Inr d"
    using assms unfolding LayoutNode by (auto simp: Let_def node_bounds_def)
  then show ?thesis by (rule convert_container_flex)
qed

lemma infer_flex_known:
  "infer_flex rect (Some p) (Some dir) =
     (if dir \<noteq> [] \<and> 0 < main_size dir p
      then Some (py_round3 (max 0 (fdiv (main_size dir rect) (main_size dir p)))) else None)"
  by (auto simp: infer_flex_def main_size_def Let_def)

lemma py_round3_half: "py_round3 (1 / 2) = 1 / 2"
  by code_simp

text \<open>
  Claim C7, as amended. A converted container carries
  \<open>flex = round(childMainSize / parentMainSize, 3)\<close>, clamped to at least 0, when a parent
  rectangle and a parent direction are known and the parent's main-axis size is positive;
  otherwise the field is omitted, also under a parent whose main-axis size is 0. The
  quotient is the quotient of two doubles and \<open>round\<close> is Python's rounding of a double at
  the third decimal. A child whose main-axis size is exactly half the parent's, so that
  the quotient is 0.5, gets 0.5.
\<close>

theorem container_flex:
  "(convert_node node physical_size virtual_size parent_rect parent_direction = Inr d
      \<and> (leaf_component node = None \<or> node_children node \<noteq> [])
    \<longrightarrow> n_flex (dsl_fields_of d) =
          map_option VFloat
            (infer_flex
               (rect_from_bounds (case node_bounds node of None \<Rightarrow> (0, 0, 0, 0) | Some b \<Rightarrow> b))
               parent_rect parent_direction))
   \<and> infer_flex rect None parent_direction = None
   \<and> infer_flex rect parent_rect None = None
   \<and> infer_flex rect (Some p) (Some dir) =
       (if dir \<noteq> [] \<and> 0 < main_size dir p
        then Some (py_round3 (max 0 (fdiv (main_size dir rect) (main_size dir p)))) else None)
   \<and> (dir \<noteq> [] \<and> 0 < main_size dir p \<and> fdiv (main_size dir rect) (main_size dir p) = 1 / 2
      \<longrightarrow> infer_flex rect (Some p) (Some dir) = Some (1 / 2))"
proof -
  have half: "dir \<noteq> [] \<and> 0 < main_size dir p \<and> fdiv (main_size dir rect) (main_size dir p) = 1 / 2
      \<longrightarrow> infer_flex rect (Some p) (Some dir) = Some (1 / 2)"
  proof
    assume h: "dir \<noteq> [] \<and> 0 < main_size dir p \<and> fdiv (main_size dir rect) (main_size dir p) = 1 / 2"
    then have r: "fdiv (main_size dir rect) (main_size dir p) = 1 / 2" by simp
    have m: "max 0 (1 / 2 :: rat) = 1 / 2" by simp
    have "py_round3 (max 0 (fdiv (main_size dir rect) (main_size dir p))) = 1 / 2"
      unfolding r m by (rule py_round3_half)
    with h show "infer_flex rect (Some p) (Some dir) = Some (1 / 2)"
      by (simp only: infer_flex_known) simp
  qed
  have none2: "infer_flex rect parent_rect None = None"
    by (simp add: infer_flex_def split: option.splits)
  show ?thesis
    using convert_node_container_flex [of node physical_size virtual_size parent_rect parent_direction d]
      half none2
    by (simp add: infer_flex_known) (simp add: infer_flex_def)
qed

theorem container_flex_witness:
  "convert_node unknown_leaf (672, 1317) (360, 720)
      (Some \<lparr>left = 0, top = 0, right = 80, bottom = 20\<rparr>) (Some ''row'')
     = Inr (DslNode
             (empty_fields
                \<lparr>n_type := Some (VStr ''container''), n_direction := Some (VStr ''col''),
                 n_gap := Some (VInt 0), n_flex := Some (VFloat (1 / 2))\<rparr>)
             (Some []))
   \<and> leaf_component unknown_leaf = None
   \<and> fdiv (main_size ''row'' \<lparr>left = 0, top = 0, right = 40, bottom = 20\<rparr>)
        (main_size ''row'' \<lparr>left = 0, top = 0, right = 80, bottom = 20\<rparr>) = 1 / 2
   \<and> infer_flex \<lparr>left = 0, top = 0, right = 40, bottom = 20\<rparr>
        (Some \<lparr>left = 0, top = 0, right = 80, bottom = 20\<rparr>) (Some ''row'') = Some (1 / 2)
   \<and> infer_flex \<lparr>left = 0, top = 0, right = 37, bottom = 20\<rparr>
        (Some \<lparr>left = 0, top = 0, right = 80, bottom = 20\<rparr>) (Some ''row'') = Some (fl (463 / 1000))
   \<and> n_flex (dsl_fields_of (DslNode
             (empty_fields
                \<lparr>n_type := Some (VStr ''container''), n_direction := Some (VStr ''col''),
                 n_gap := Some (VInt 0), n_flex := Some (VFloat (1 / 2))\<rparr>)
             (Some []))) = Some (VFloat (1 / 2))"
proof -
  have lc: "leaf_component unknown_leaf = None"
    by (simp add: unknown_leaf_def leaf_component_def lower_def lower_char_def)
  have ms: "fdiv (main_size ''row'' \<lparr>left = 0, top = 0, right = 40, bottom = 20\<rparr>)
        (main_size ''row'' \<lparr>left = 0, top = 0, right = 80, bottom = 20\<rparr>) = 1 / 2"
    "0 < main_size ''row'' \<lparr>left = 0, top = 0, right = 80, bottom = 20\<rparr>"
    by code_simp+
  have ne: "''row'' \<noteq> []" by simp
  have nb: "rect_from_bounds (case node_bounds unknown_leaf of None \<Rightarrow> (0, 0, 0, 0) | Some b \<Rightarrow> b)
              = \<lparr>left = 0, top = 0, right = 40, bottom = 20\<rparr>"
    by (simp add: unknown_leaf_def node_bounds_def rect_from_bounds_def)
  have fx: "infer_flex \<lparr>left = 0, top = 0, right = 40, bottom = 20\<rparr>
        (Some \<lparr>left = 0, top = 0, right = 80, bottom = 20\<rparr>) (Some ''row'') = Some (1 / 2)"
    using container_flex [of unknown_leaf "(672, 1317)" "(360, 720)"
        "Some \<lparr>left = 0, top = 0, right = 80, bottom = 20\<rparr>" "Some ''row''"
        "DslNode (empty_fields
                \<lparr>n_type := Some (VStr ''container''), n_direction := Some (VStr ''col''),
                 n_gap := Some (VInt 0), n_flex := Some (VFloat (1 / 2))\<rparr>) (Some [])"
        "\<lparr>left = 0, top = 0, right = 40, bottom = 20\<rparr>"
        "\<lparr>left = 0, top = 0, right = 80, bottom = 20\<rparr>" "''row''"] ms ne
    by blast
  have cn: "convert_node unknown_leaf (672, 1317) (360, 720)
      (Some \<lparr>left = 0, top = 0, right = 80, bottom = 20\<rparr>) (Some ''row'')
     = Inr (DslNode
             (empty_fields
                \<lparr>n_type := Some (VStr ''container''), n_direction := Some (VStr ''col''),
                 n_gap := Some (VInt 0), n_flex := Some (VFloat (1 / 2))\<rparr>)
             (Some []))"
    using lc fx nb
    by (simp add: unknown_leaf_def infer_gap_def align_main_def align_cross_def map_filter_simps
        map_direction_def empty_fields_def rect_from_bounds_def)
  have r37: "py_round3 (max 0 (fdiv (main_size ''row'' \<lparr>left = 0, top = 0, right = 37, bottom = 20\<rparr>)
        (main_size ''row'' \<lparr>left = 0, top = 0, right = 80, bottom = 20\<rparr>))) = fl (463 / 1000)"
    by code_simp
  have f37: "infer_flex \<lparr>left = 0, top = 0, right = 37, bottom = 20\<rparr>
        (Some \<lparr>left = 0, top = 0, right = 80, bottom = 20\<rparr>) (Some ''row'') = Some (fl (463 / 1000))"
    using container_flex [of unknown_leaf "(672, 1317)" "(360, 720)"
        "Some \<lparr>left = 0, top = 0, right = 80, bottom = 20\<rparr>" "Some ''row''"
        "DslNode (empty_fields
                \<lparr>n_type := Some (VStr ''container''), n_direction := Some (VStr ''col''),
                 n_gap := Some (VInt 0), n_flex := Some (VFloat (1 / 2))\<rparr>) (Some [])"
        "\<lparr>left = 0, top = 0, right = 37, bottom = 20\<rparr>"
        "\<lparr>left = 0, top = 0, right = 80, bottom = 20\<rparr>" "''row''"] ms(2) ne r37
    by simp
  show ?thesis using cn lc ms fx f37 by simp
qed

text \<open>
  The claim as stated fails under a parent of width 0: parent rectangle and direction are
  known, and the container carries no \<open>flex\<close>.
\<close>

theorem container_flex_zero_parent_counterexample:
  "width \<lparr>left = 0, top = 0, right = 0, bottom = 100\<rparr> = 0
   \<and> leaf_component unknown_leaf = None
   \<and> convert_node unknown_leaf (672, 1317) (360, 720)
      (Some \<lparr>left = 0, top = 0, right = 0, bottom = 100\<rparr>) (Some ''row'')
     = Inr (DslNode
             (empty_fields
                \<lparr>n_type := Some (VStr ''container''), n_direction := Some (VStr ''col''),
                 n_gap := Some (VInt 0), n_flex := None\<rparr>)
             (Some []))"
  by (simp add: unknown_leaf_def leaf_component_def lower_def lower_char_def infer_gap_def
      align_main_def align_cross_def map_filter_simps map_direction_def empty_fields_def
      rect_from_bounds_def infer_flex_def width_def fsub_def fl_def)

section \<open>Properties of the compiler\<close>

subsection \<open>Which errors the renderers raise\<close>

lemma has_colon_simps [simp]:
  "has_colon []"
  "has_colon (s # es) = (CHR '':'' \<in> set s \<and> has_colon es)"
  "has_colon (es @ fs) = (has_colon es \<and> has_colon fs)"
  by (simp_all add: has_colon_def)

lemma format_entries_ok: "has_colon es \<Longrightarrow> \<exists>fs. format_entries es = Inr fs"
  by (induction es) (auto simp: split_colon_def)

lemma format_style_object_ok: "has_colon es \<Longrightarrow> \<exists>css. format_style_object es = Inr css"
  using format_entries_ok [of es] by (auto simp: format_style_object_def)

lemma styled_line_ok:
  "has_colon es \<Longrightarrow> \<exists>css. styled_line b es a st = Inr (write_line (b @ css @ a) st)"
  using format_style_object_ok [of es] by (auto simp: styled_line_def)

lemma format_entries_err: "format_entries es = Inl e \<Longrightarrow> e = ValueError"
  by (induction es arbitrary: e) (auto split: option.splits sum.splits)

lemma styled_line_err: "styled_line b es a st = Inl e \<Longrightarrow> python_error e"
  using format_entries_err [of es e]
  by (auto simp: styled_line_def format_style_object_def python_error_def split: sum.splits)

lemma format_style_object_err: "format_style_object es = Inl e \<Longrightarrow> python_error e"
  using format_entries_err [of es e]
  by (auto simp: format_style_object_def python_error_def split: sum.splits)

lemma table_get_err: "table_get t k d = Inl e \<Longrightarrow> python_error e"
  by (auto simp: table_get_def python_error_def split: pyval.splits)

lemma map_to_icon_class_err: "map_to_icon_class k = Inl e \<Longrightarrow> python_error e"
  unfolding map_to_icon_class_def by (rule table_get_err)

lemma py_mul_err: "py_mul a b = Inl e \<Longrightarrow> python_error e"
  by (auto simp: py_mul_def python_error_def split: option.splits pyval.splits)

lemma py_sub_err: "py_sub a b = Inl e \<Longrightarrow> python_error e"
  by (auto simp: py_sub_def python_error_def split: option.splits)

lemma py_truediv_err: "py_truediv a b = Inl e \<Longrightarrow> python_error e"
  by (auto simp: py_truediv_def python_error_def split: option.splits if_splits)

lemma py_max_int_err: "py_max_int a k = Inl e \<Longrightarrow> python_error e"
  by (auto simp: py_max_int_def python_error_def split: option.splits)

lemma py_min_int_err: "py_min_int a k = Inl e \<Longrightarrow> python_error e"
  by (auto simp: py_min_int_def python_error_def split: option.splits)

lemma has_colon_size_styles [simp]: "has_colon (size_styles rt flex w h)"
  by (simp add: size_styles_def)

lemma succeeds_Inr [simp]: "succeeds (Inr x)"
  by (simp add: succeeds_def)

lemma succeeds_Inl [simp]: "\<not> succeeds (Inl e)"
  by (simp add: succeeds_def)

lemma styled_line_succeeds: "has_colon es \<Longrightarrow> succeeds (styled_line b es a st)"
  using styled_line_ok [of es b a st] by (auto simp: succeeds_def)

lemma render_text_ok: "succeeds (render_text_component rt props content depth flex w h st)"
  by (simp add: render_text_component_def get_text_styles_def Let_def styled_line_succeeds)

lemma render_image_ok: "succeeds (render_image_component rt props depth flex w h st)"
  by (simp add: render_image_component_def Let_def styled_line_succeeds)

lemma render_icon_ok:
  "props ''name'' = Some (VStr s) \<Longrightarrow> succeeds (render_icon_component rt props depth flex w h st)"
  by (simp add: render_icon_component_def Let_def styled_line_succeeds map_to_icon_class_def
      table_get_def pget_def)

lemma render_text_err:
  "render_text_component rt props content depth flex w h st = Inl e \<Longrightarrow> python_error e"
  unfolding render_text_component_def Let_def by (rule styled_line_err)

lemma render_image_err:
  "render_image_component rt props depth flex w h st = Inl e \<Longrightarrow> python_error e"
  unfolding render_image_component_def Let_def by (rule styled_line_err)

lemma render_icon_err:
  "render_icon_component rt props depth flex w h st = Inl e \<Longrightarrow> python_error e"
  unfolding render_icon_component_def Let_def
  by (auto split: sum.splits dest: styled_line_err map_to_icon_class_err)

lemma render_checkbox_err:
  "render_checkbox_component rt props depth flex w h st = Inl e \<Longrightarrow> python_error e"
  unfolding render_checkbox_component_def Let_def by (rule styled_line_err)

lemma render_divider_err:
  "render_divider_component rt props depth flex w h st = Inl e \<Longrightarrow> python_error e"
  unfolding render_divider_component_def Let_def by (rule styled_line_err)

lemma render_indicator_err:
  "render_indicator_component rt props depth flex w h st = Inl e \<Longrightarrow> python_error e"
  unfolding render_indicator_component_def Let_def by (rule styled_line_err)

lemma render_generic_err:
  "render_generic_component rt name props content depth flex w h st = Inl e \<Longrightarrow> python_error e"
  unfolding render_generic_component_def Let_def by (rule styled_line_err)

lemma render_sparkline_err:
  "render_sparkline_component rt props depth flex w h st = Inl e \<Longrightarrow> python_error e"
  unfolding render_sparkline_component_def Let_def
  by (auto split: sum.splits dest: styled_line_err)

lemma render_chart_err:
  "render_chart_component rt chart_type props depth flex w h st = Inl e \<Longrightarrow> python_error e"
  unfolding render_chart_component_def Let_def
  by (auto split: sum.splits dest: styled_line_err)

lemma render_progress_bar_err:
  "render_progress_bar_component rt props depth flex w h st = Inl e \<Longrightarrow> python_error e"
  unfolding render_progress_bar_component_def Let_def
  by (auto split: sum.splits dest: styled_line_err py_mul_err)

lemma render_button_err:
  "render_button_component rt props depth flex w h st = Inl e \<Longrightarrow> python_error e"
  unfolding render_button_component_def Let_def
  by (auto split: sum.splits if_splits dest: styled_line_err py_mul_err map_to_icon_class_err)

lemma normalized_percentage_err: "normalized_percentage p = Inl e \<Longrightarrow> python_error e"
  by (auto simp: normalized_percentage_def split: sum.splits dest: py_max_int_err py_min_int_err)

lemma ring_radius_err: "ring_radius s w = Inl e \<Longrightarrow> python_error e"
  by (auto simp: ring_radius_def split: sum.splits dest: py_sub_err py_truediv_err)

lemma ring_circumference_err: "ring_circumference r = Inl e \<Longrightarrow> python_error e"
  by (auto simp: ring_circumference_def dest: py_mul_err)

lemma ring_stroke_dashoffset_err: "ring_stroke_dashoffset n c = Inl e \<Longrightarrow> python_error e"
  by (auto simp: ring_stroke_dashoffset_def split: sum.splits
      dest: py_sub_err py_truediv_err py_mul_err)

lemma render_progress_ring_err:
  "render_progress_ring_component rt props depth flex w h st = Inl e \<Longrightarrow> python_error e"
  unfolding render_progress_ring_component_def Let_def
  by (auto split: sum.splits if_splits
      dest: styled_line_err py_truediv_err map_to_icon_class_err normalized_percentage_err
        ring_radius_err ring_circumference_err ring_stroke_dashoffset_err)

lemma python_error_not_leaf [simp]: "\<not> python_error InvalidLeaf" "\<not> python_error InvalidSpec"
  by (simp_all add: python_error_def)

lemma render_leaf_no_component:
  "\<not> truthy (nget (n_component f) VNone) \<Longrightarrow> render_leaf rt f depth st = Inl InvalidLeaf"
  by (simp add: render_leaf_def Let_def)

lemma render_component_err:
  "render_component rt cn props content depth flex w h st = Inl e \<Longrightarrow> python_error e"
  unfolding render_component_def
  by (auto split: if_splits
      dest: render_text_err render_button_err render_icon_err render_image_err
        render_checkbox_err render_divider_err render_indicator_err render_progress_bar_err
        render_progress_ring_err render_sparkline_err render_chart_err render_generic_err)

lemma render_leaf_err:
  assumes "render_leaf rt f depth st = Inl e" and "truthy (nget (n_component f) VNone)"
  shows "python_error e"
  using assms unfolding render_leaf_def Let_def
  by (cases "nget (n_component f) VNone")
     (auto simp: python_error_def [of TypeError] dest: render_component_err)

lemma render_leaf_InvalidLeaf_iff:
  "(render_leaf rt f depth st = Inl InvalidLeaf) = (\<not> truthy (nget (n_component f) VNone))"
  using render_leaf_err [of rt f depth st InvalidLeaf] render_leaf_no_component [of f rt depth st]
  by auto



subsection \<open>The two errors of the compiler\<close>

lemma has_colon_widget_styles: "has_colon (widget_styles rt w)"
  by (simp add: widget_styles_def Let_def)








subsection \<open>Nodes that are neither containers nor leaves\<close>

text \<open>Claim C10. A node whose \<open>type\<close> is neither \<open>container\<close> nor \<open>leaf\<close>, a missing type
  included, is skipped by the node renderer: the state of the compilation (lines, styles and
  scripts) is unchanged and no error is raised, whatever its other keys and children are. In a
  list of children the node leaves no trace, and as the root it compiles to a document with an
  empty body.\<close>

theorem render_node_ignores_other_types:
  assumes "n_type f \<noteq> Some (VStr ''container'')" and "n_type f \<noteq> Some (VStr ''leaf'')"
  shows "render_node rt (DslNode f kids) depth st = Inr st
    \<and> render_children rt (before @ DslNode f kids # after) depth st
        = render_children rt (before @ after) depth st
    \<and> (w_root (get_widget w) = Some (DslNode f kids) \<and> \<not> node_is_empty (DslNode f kids)
         \<longrightarrow> (\<exists>css. compile_widget_dsl_to_html rt w
                  = Inr \<lparr>doc_widget_style = css, doc_styles = [], doc_lines = [], doc_scripts = []\<rparr>))"
proof -
  have a: "\<And>depth st. render_node rt (DslNode f kids) depth st = Inr st"
    using assms by simp
  have b: "\<And>st. render_children rt (before @ DslNode f kids # after) depth st
        = render_children rt (before @ after) depth st"
    by (induction before) (simp_all add: a split: sum.splits del: render_node.simps)
  have c: "w_root (get_widget w) = Some (DslNode f kids) \<and> \<not> node_is_empty (DslNode f kids)
         \<longrightarrow> (\<exists>css. compile_widget_dsl_to_html rt w
                  = Inr \<lparr>doc_widget_style = css, doc_styles = [], doc_lines = [], doc_scripts = []\<rparr>)"
    using format_style_object_ok [OF has_colon_widget_styles, of rt "get_widget w"] a [of 0 init_state]
    by (auto simp: compile_widget_dsl_to_html_def init_state_def simp del: render_node.simps node_is_empty.simps)
  show ?thesis using a b c by blast
qed

theorem render_node_ignores_other_types_witness:
  "render_node example_runtime (DslNode (empty_fields\<lparr>n_type := Some (VStr ''spacer'')\<rparr>) (Some [unnamed_leaf]))
       3 init_state = Inr init_state
   \<and> render_node example_runtime untyped_node 0 init_state = Inr init_state
   \<and> render_children example_runtime [untyped_node, untyped_node] 1 init_state = Inr init_state
   \<and> (\<exists>css. compile_widget_dsl_to_html example_runtime (root_widget untyped_node)
          = Inr \<lparr>doc_widget_style = css, doc_styles = [], doc_lines = [], doc_scripts = []\<rparr>)"
proof -
  let ?s = "empty_fields\<lparr>n_type := Some (VStr ''spacer'')\<rparr>"
  let ?u = "empty_fields\<lparr>n_component := Some (VStr ''Text'')\<rparr>"
  have s: "n_type ?s \<noteq> Some (VStr ''container'')" "n_type ?s \<noteq> Some (VStr ''leaf'')"
    by simp_all
  have u: "n_type ?u \<noteq> Some (VStr ''container'')" "n_type ?u \<noteq> Some (VStr ''leaf'')"
    by (simp_all add: empty_fields_def)
  have r: "w_root (get_widget (root_widget untyped_node)) = Some (DslNode ?u None)"
    "\<not> node_is_empty (DslNode ?u None)"
    by (simp_all add: root_widget_def get_widget_def untyped_node_def empty_fields_def)
  have e: "render_children example_runtime [] 1 init_state = Inr init_state"
    by simp
  show ?thesis
    using render_node_ignores_other_types [OF s, of example_runtime "Some [unnamed_leaf]" 3 init_state "[]" "[]"
        "root_widget untyped_node"]
      render_node_ignores_other_types [OF u, of example_runtime None 0 init_state "[]" "[]"
        "root_widget untyped_node"]
      render_node_ignores_other_types [OF u, of example_runtime None 1 init_state "[]" "[untyped_node]"
        "root_widget untyped_node"]
      render_node_ignores_other_types [OF u, of example_runtime None 1 init_state "[]" "[]"
        "root_widget untyped_node"]
      r e
    unfolding untyped_node_def [symmetric]
    by (simp del: render_node.simps render_children.simps node_is_empty.simps)
qed

subsection \<open>The progress renderers\<close>




end
